theory Spec2Isabelle
  imports Complex_Main
begin

section \<open>Dense vectors and matrices\<close>

text \<open>
  Eigen's \<open>VectorXd\<close> is modelled as a list of reals and a dense matrix as the list of its
  rows. The entries are IEEE doubles in the source; the model computes over the reals, so
  rounding, infinities and NaN are outside it.
\<close>

type_synonym VectorXd = "real list"

type_synonym MatrixXd = "real list list"

definition coeff :: "MatrixXd \<Rightarrow> nat \<Rightarrow> nat \<Rightarrow> real" where
  "coeff R i j = R ! i ! j"

definition coeffRef :: "MatrixXd \<Rightarrow> nat \<Rightarrow> nat \<Rightarrow> real \<Rightarrow> MatrixXd" where
  \<comment> \<open>\<open>R.coeffRef(i, j) = v\<close>\<close>
  "coeffRef R i j v = R[i := (R ! i)[j := v]]"

definition array_div :: "MatrixXd \<Rightarrow> real \<Rightarrow> MatrixXd" where
  \<comment> \<open>\<open>R.array() /= c\<close>\<close>
  "array_div R c = map (map (\<lambda>x. x / c)) R"

section \<open>utils/rotation.hpp\<close>

datatype ProjectionAxis = AxisX | AxisY | AxisZ

definition projection_norm :: "MatrixXd \<Rightarrow> ProjectionAxis \<Rightarrow> real" where
  \<comment> \<open>the local \<open>norm\<close> of each branch of \<open>ProjectRotationMatrix\<close>\<close>
  "projection_norm R axis =
     (case axis of
        AxisX \<Rightarrow> coeff R 1 1 * coeff R 1 1 + coeff R 1 2 + coeff R 1 2
      | AxisY \<Rightarrow> coeff R 0 0 * coeff R 0 0 + coeff R 0 2 + coeff R 0 2
      | AxisZ \<Rightarrow> coeff R 0 0 * coeff R 0 0 + coeff R 0 1 + coeff R 0 1)"

definition overwrite_axis :: "MatrixXd \<Rightarrow> ProjectionAxis \<Rightarrow> MatrixXd" where
  \<comment> \<open>the five \<open>coeffRef\<close> assignments of each branch, in the order of the source\<close>
  "overwrite_axis R axis =
     (case axis of
        AxisX \<Rightarrow>
          coeffRef (coeffRef (coeffRef (coeffRef (coeffRef R 0 0 1) 0 1 0) 0 2 0) 1 0 0) 2 0 0
      | AxisY \<Rightarrow>
          coeffRef (coeffRef (coeffRef (coeffRef (coeffRef R 0 1 0) 1 0 0) 1 1 1) 1 2 0) 2 1 0
      | AxisZ \<Rightarrow>
          coeffRef (coeffRef (coeffRef (coeffRef (coeffRef R 0 2 0) 1 2 0) 2 0 0) 2 1 0) 2 2 1)"

definition ProjectRotationMatrix :: "MatrixXd \<Rightarrow> ProjectionAxis \<Rightarrow> MatrixXd option" where
  \<comment> \<open>The source divides doubles, so a zero divisor fills the matrix with infinities and
      NaN; these are not reals, and the model returns \<open>None\<close> there.\<close>
  "ProjectRotationMatrix R axis =
     (let nrm = projection_norm R axis
      in if nrm = 0 then None else Some (overwrite_axis (array_div R nrm) axis))"

section \<open>Loops and stage containers\<close>

primrec for_loop :: "nat \<Rightarrow> (nat \<Rightarrow> 's \<Rightarrow> 's) \<Rightarrow> 's \<Rightarrow> 's" where
  \<comment> \<open>\<open>for (int i=0; i<n; ++i) body\<close> on the state \<open>s\<close>\<close>
  "for_loop 0 body s = s"
| "for_loop (Suc n) body s = body n (for_loop n body s)"

primrec for_loop_down :: "nat \<Rightarrow> (nat \<Rightarrow> 's \<Rightarrow> 's) \<Rightarrow> 's \<Rightarrow> 's" where
  \<comment> \<open>\<open>for (int i=n-1; i>=0; --i) body\<close> on the state \<open>s\<close>\<close>
  "for_loop_down 0 body s = s"
| "for_loop_down (Suc n) body s = for_loop_down n body (body n s)"

definition setZero :: "VectorXd \<Rightarrow> VectorXd" where
  "setZero v = map (\<lambda>_. 0) v"

definition add_coeffRef :: "VectorXd \<Rightarrow> nat \<Rightarrow> real \<Rightarrow> VectorXd" where
  \<comment> \<open>\<open>v.coeffRef(i) += x\<close>; Eigen requires \<open>i < v.size()\<close>\<close>
  "add_coeffRef v i x = v[i := v ! i + x]"

text \<open>
  The containers of the solver (\<open>KKTResidual\<close>, \<open>KKTMatrix\<close>, \<open>RiccatiFactorization\<close>,
  \<open>Direction\<close>, and the stage workers of \<open>OCP\<close>) hold one array indexed by the time stage,
  reached by \<open>operator[]\<close>, and the side arrays \<open>aux\<close>, \<open>lift\<close>, \<open>impulse\<close> and
  \<open>switching\<close> indexed by the event.
\<close>

record ('t, 'i, 's) hybrid_container =
  data :: "'t list"
  aux :: "'t list"
  lift :: "'t list"
  impulse :: "'i list"
  switching :: "'s list"

subsection \<open>hybrid/time\_discretization.hpp\<close>

text \<open>
  The header declares the accessors of \<open>TimeDiscretization\<close> and their definitions are
  in a file that is not modelled, so each accessor that the solver calls is a field: the counts \<open>N()\<close>, \<open>N_impulse()\<close>, \<open>N_lift()\<close> and the queries
  by time stage, event index or contact phase. Stages, indices and phases are natural
  numbers.
\<close>

datatype DiscreteEventType = Impulse | Lift

record TimeDiscretization =
  N_grid :: nat  \<comment> \<open>\<open>N()\<close>\<close>
  N_impulse :: nat
  N_lift :: nat
  contactPhase :: "nat \<Rightarrow> nat"
  contactPhaseAfterImpulse :: "nat \<Rightarrow> nat"
  contactPhaseAfterLift :: "nat \<Rightarrow> nat"
  impulseIndexAfterTimeStage :: "nat \<Rightarrow> nat"
  liftIndexAfterTimeStage :: "nat \<Rightarrow> nat"
  isTimeStageBeforeImpulse :: "nat \<Rightarrow> bool"
  isTimeStageBeforeLift :: "nat \<Rightarrow> bool"
  isSTOEnabledPhase :: "nat \<Rightarrow> bool"
  isSTOEnabledNextPhase :: "nat \<Rightarrow> bool"
  isSTOEnabledImpulse :: "nat \<Rightarrow> bool"
  isSTOEnabledLift :: "nat \<Rightarrow> bool"
  eventType :: "nat \<Rightarrow> DiscreteEventType"

section \<open>Construction-time argument checks\<close>

text \<open>
  A constructor runs its member initializers first and its body after them. Both
  constructors validate their arguments in the body, inside a \<open>try\<close> block whose handler
  catches every \<open>std::exception\<close>, writes \<open>e.what()\<close> and a newline to \<open>std::cerr\<close> and
  calls \<open>std::exit(EXIT_FAILURE)\<close>; an exception that a member initializer throws is
  outside that block and reaches the caller. An outcome of a constructor call is therefore
  one of: the object, an exception that reaches the caller, or the end of the process.
  Arguments of type \<open>double\<close> are reals, so a NaN, which passes every comparison of the
  checks, is not among them; C++ \<open>int\<close> is modelled by the integers.
\<close>

datatype exception = out_of_range string | length_error string | bad_alloc

definition what :: "exception \<Rightarrow> string" where
  "what e =
     (case e of out_of_range msg \<Rightarrow> msg | length_error msg \<Rightarrow> msg
      | bad_alloc \<Rightarrow> ''std::bad_alloc'')"

datatype exit_status = EXIT_SUCCESS | EXIT_FAILURE

datatype 'a outcome =
    Constructed 'a
  | Thrown exception
  | Exited string exit_status  \<comment> \<open>text written to \<open>std::cerr\<close>, status given to \<open>std::exit\<close>\<close>

definition catch_print_exit :: "exception + unit \<Rightarrow> 'a \<Rightarrow> 'a outcome" where
  \<comment> \<open>\<open>catch(const std::exception& e) { std::cerr << e.what() << '\n'; std::exit(EXIT_FAILURE); }\<close>
      around a \<open>try\<close> block, followed by the rest of the body, which yields the object\<close>
  "catch_print_exit tried obj =
     (case tried of
        Inl e \<Rightarrow> Exited (what e @ [CHR 0x0A]) EXIT_FAILURE
      | Inr _ \<Rightarrow> Constructed obj)"

subsection \<open>Containers sized by an \<open>int\<close>\<close>

definition Zero :: "int \<Rightarrow> exception + VectorXd" where
  \<comment> \<open>\<open>Eigen::VectorXd::Zero(n)\<close> stored into a vector. Eigen refuses a negative size: the
      allocation throws \<open>std::bad_alloc\<close> (where Eigen's assertions are compiled in, an
      assertion stops the process before that).\<close>
  "Zero n = (if n < 0 then Inl bad_alloc else Inr (replicate (nat n) 0))"

definition std_vector :: "int \<Rightarrow> 'a \<Rightarrow> exception + 'a list" where
  \<comment> \<open>\<open>std::vector<T>(n, x)\<close> with the count given as an \<open>int\<close>: a negative count converts
      to a size beyond \<open>max_size()\<close>, and the constructor throws \<open>std::length_error\<close>.\<close>
  "std_vector n x =
     (if n < 0 then Inl (length_error ''cannot create std::vector larger than max_size()'')
      else Inr (replicate (nat n) x))"

definition hybrid_container_ctor ::
  "int \<Rightarrow> int \<Rightarrow> 't \<Rightarrow> 'i \<Rightarrow> 's \<Rightarrow> exception + ('t, 'i, 's) hybrid_container"
where
  \<comment> \<open>Modelled from the spec: the constructor \<open>hybrid_container(robot, N, max_num_impulse)\<close>
      (its header is missing from the sources) allocates the array of the time stages
      \<open>0, \<dots>, N\<close> and the side arrays of the impulse, aux and lift stages, each sized to
      the maximum number of events, with entries built from the robot.\<close>
  "hybrid_container_ctor N max_num_impulse x xi xs =
     (case std_vector (N + 1) x of Inl e \<Rightarrow> Inl e | Inr data0 \<Rightarrow>
      case std_vector max_num_impulse x of Inl e \<Rightarrow> Inl e | Inr aux0 \<Rightarrow>
      case std_vector max_num_impulse x of Inl e \<Rightarrow> Inl e | Inr lift0 \<Rightarrow>
      case std_vector max_num_impulse xi of Inl e \<Rightarrow> Inl e | Inr impulse0 \<Rightarrow>
      case std_vector max_num_impulse xs of Inl e \<Rightarrow> Inl e | Inr switching0 \<Rightarrow>
        Inr \<lparr> data = data0, aux = aux0, lift = lift0, impulse = impulse0,
              switching = switching0 \<rparr>)"

subsection \<open>riccati/riccati\_recursion.cpp\<close>

text \<open>
  The members \<open>nthreads_\<close>, \<open>N_\<close>, \<open>N_all_\<close>, \<open>max_primal_step_sizes_\<close> and
  \<open>max_dual_step_sizes_\<close> (a name cannot end with an underscore here). The factorizer, the
  Riccati matrix and the entries of the two policy containers are built from the robot
  model alone; of the policy containers \<open>lqr_policy_\<close> and \<open>sto_policy_\<close> the model keeps
  the allocation, which depends on the arguments, with \<open>()\<close> for an entry.
\<close>

record RiccatiRecursion =
  nthreads :: int
  N_stages :: int
  N_all :: int
  max_primal_step_sizes :: VectorXd
  max_dual_step_sizes :: VectorXd

definition RiccatiRecursion_members :: "int \<Rightarrow> int \<Rightarrow> int \<Rightarrow> exception + RiccatiRecursion"
where
  \<comment> \<open>the member initializer list, in its order: \<open>lqr_policy_(robot, N, max_num_impulse)\<close>,
      \<open>sto_policy_(2*max_num_impulse+1, STOPolicy(robot))\<close> and the two vectors of
      \<open>N+1+3*max_num_impulse\<close> zeros; the first initializer that throws ends the
      construction\<close>
  "RiccatiRecursion_members N max_num_impulse nthr =
     (case hybrid_container_ctor N max_num_impulse () () () of Inl e \<Rightarrow> Inl e
      | Inr lqr_policy0 \<Rightarrow>
      case std_vector (2 * max_num_impulse + 1) () of Inl e \<Rightarrow> Inl e
      | Inr sto_policy0 \<Rightarrow>
      case Zero (N + 1 + 3 * max_num_impulse) of Inl e \<Rightarrow> Inl e
      | Inr primal0 \<Rightarrow>
      case Zero (N + 1 + 3 * max_num_impulse) of Inl e \<Rightarrow> Inl e
      | Inr dual0 \<Rightarrow>
        Inr \<lparr> nthreads = nthr, N_stages = N, N_all = N + 1,
              max_primal_step_sizes = primal0, max_dual_step_sizes = dual0 \<rparr>)"

definition RiccatiRecursion_try :: "int \<Rightarrow> int \<Rightarrow> int \<Rightarrow> exception + unit" where
  \<comment> \<open>the \<open>try\<close> block: the first failing check throws\<close>
  "RiccatiRecursion_try N max_num_impulse nthr =
     (if N \<le> 0 then Inl (out_of_range ''invalid value: N must be positive!'')
      else if max_num_impulse < 0
        then Inl (out_of_range ''invalid value: max_num_impulse must be non-negative!'')
      else if nthr \<le> 0 then Inl (out_of_range ''invalid value: nthreads must be positive!'')
      else Inr ())"

definition RiccatiRecursion_ctor :: "int \<Rightarrow> int \<Rightarrow> int \<Rightarrow> RiccatiRecursion outcome" where
  \<comment> \<open>the member initializers, whose exception reaches the caller, and then the body\<close>
  "RiccatiRecursion_ctor N max_num_impulse nthr =
     (case RiccatiRecursion_members N max_num_impulse nthr of
        Inl e \<Rightarrow> Thrown e
      | Inr obj \<Rightarrow> catch_print_exit (RiccatiRecursion_try N max_num_impulse nthr) obj)"

subsection \<open>mpc/raibert\_heuristic.cpp\<close>





definition surfaces_to_caller :: "'a outcome \<Rightarrow> bool" where
  \<comment> \<open>the caller gets control back with an error in hand\<close>
  "surfaces_to_caller r = (case r of Thrown _ \<Rightarrow> True | _ \<Rightarrow> False)"

section \<open>The KKT error of a stage\<close>

definition squaredNorm :: "VectorXd \<Rightarrow> real" where
  \<comment> \<open>Eigen's \<open>squaredNorm()\<close>: the sum of the squares of the entries\<close>
  "squaredNorm v = (\<Sum>x\<leftarrow>v. x * x)"

definition lpNorm_Infinity :: "VectorXd \<Rightarrow> real" where
  \<comment> \<open>Eigen's \<open>lpNorm<Eigen::Infinity>()\<close>: the largest absolute value of an entry\<close>
  "lpNorm_Infinity v = foldr (\<lambda>x m. max \<bar>x\<bar> m) v 0"

definition head :: "nat \<Rightarrow> VectorXd \<Rightarrow> VectorXd" where
  \<comment> \<open>\<open>v.head(n)\<close>, the view of the first \<open>n\<close> entries; Eigen requires \<open>n \<le> v.size()\<close>\<close>
  "head n v = take n v"

subsection \<open>idocp/ocp/kkt\_residual.hpp\<close>

text \<open>
  The stacked residual \<open>kkt_residual_\<close> is allocated with \<open>max_dimKKT()\<close> entries, of which
  the first \<open>dimKKT()\<close> are in use under the current contact status. \<open>KKTComposition\<close>,
  which computes \<open>dimKKT()\<close>, is not modelled: the value it returns is a field. The
  public vectors \<open>lu\<close>, \<open>u_res\<close>, \<open>phiq\<close> and \<open>phiv\<close> of the class are stored apart from the
  stacked residual and \<open>squaredKKTErrorNorm\<close> does not read them.
\<close>

record idocp_KKTResidual =
  kkt_residual_buf :: VectorXd  \<comment> \<open>\<open>kkt_residual_\<close>\<close>
  dimKKT :: nat

definition squaredKKTErrorNorm :: "idocp_KKTResidual \<Rightarrow> real" where
  "squaredKKTErrorNorm r = squaredNorm (head (dimKKT r) (kkt_residual_buf r))"

definition KKT_residual :: "idocp_KKTResidual \<Rightarrow> VectorXd" where
  "KKT_residual r = head (dimKKT r) (kkt_residual_buf r)"

section \<open>Contact status\<close>

text \<open>
  Modelled from the spec: \<open>ContactStatus\<close> (its header is missing from the sources) records which of the
  point contacts of the robot are active, and its \<open>dimf()\<close> is the dimension of the stack
  of the contact forces, three for each active point contact.
\<close>

record ContactStatus =
  is_contact_active :: "bool list"

definition num_active_contacts :: "ContactStatus \<Rightarrow> nat" where
  \<comment> \<open>Modelled from the spec: the number of active point contacts of \<open>ContactStatus\<close>.\<close>
  "num_active_contacts contact_status = length (filter (\<lambda>b. b) (is_contact_active contact_status))"

definition ContactStatus_dimf :: "ContactStatus \<Rightarrow> nat" where
  \<comment> \<open>Modelled from the spec: \<open>ContactStatus::dimf()\<close>, three per active point contact.\<close>
  "ContactStatus_dimf contact_status = 3 * num_active_contacts contact_status"

definition maxNumContacts :: "ContactStatus \<Rightarrow> nat" where
  \<comment> \<open>Modelled from the spec: the number of point contacts of the robot.\<close>
  "maxNumContacts contact_status = length (is_contact_active contact_status)"

section \<open>ocp/split\_kkt\_residual.hpp and ocp/split\_kkt\_matrix.hpp\<close>

text \<open>
  The public members of \<open>SplitKKTResidual\<close> are \<open>Fx\<close>, \<open>lx\<close>, \<open>la\<close>, \<open>lu\<close>, \<open>h\<close>,
  \<open>kkt_error\<close>, \<open>cost\<close> and \<open>constraint_violation\<close>; the private ones are the buffer
  \<open>lf_full_\<close> and the dimensions \<open>dimv_\<close>, \<open>dimu_\<close>, \<open>dimf_\<close>. The scalar members and the
  dimensions carry the prefix \<open>res_\<close> here.
\<close>

record SplitKKTResidual =
  Fx :: VectorXd
  lx :: VectorXd
  la :: VectorXd
  lu :: VectorXd
  res_h :: real
  res_kkt_error :: real
  res_cost :: real
  res_constraint_violation :: real
  lf_full :: VectorXd
  res_dimv :: nat
  res_dimu :: nat
  res_dimf :: nat

text \<open>
  The members of \<open>SplitKKTMatrix\<close>; the private ones are the buffers \<open>Qff_full_\<close>,
  \<open>Qqf_full_\<close>, \<open>hf_full_\<close>, the flag \<open>has_floating_base_\<close> and the dimensions, which carry
  the prefix \<open>mat_\<close> here.
\<close>

record SplitKKTMatrix =
  Fxx :: MatrixXd
  Fvu :: MatrixXd
  Qxx :: MatrixXd
  Qaa :: MatrixXd
  Qxu :: MatrixXd
  Quu :: MatrixXd
  Fqq_prev :: MatrixXd
  fx :: VectorXd
  Qtt :: real
  Qtt_prev :: real
  hx :: VectorXd
  hu :: VectorXd
  ha :: VectorXd
  Qff_full :: MatrixXd
  Qqf_full :: MatrixXd
  hf_full :: VectorXd
  mat_has_floating_base :: bool
  mat_dimv :: nat
  mat_dimx :: nat
  mat_dimu :: nat
  mat_dimf :: nat

subsection \<open>\<open>setContactStatus\<close> and the contact-force accessors\<close>

text \<open>
  Modelled from the spec: the inline definitions of \<open>setContactStatus\<close>, \<open>dimf\<close> and the
  contact-force accessors of both classes are missing from the sources. \<open>setContactStatus\<close> merely
  adjusts the dimension that the accessors use, to the \<open>dimf()\<close> of the contact status,
  and an accessor is the view of the leading part of that dimension of its buffer, which was
  allocated at construction for the maximum dimension.
\<close>

definition SplitKKTResidual_setContactStatus ::
  "SplitKKTResidual \<Rightarrow> ContactStatus \<Rightarrow> SplitKKTResidual" where
  \<comment> \<open>Modelled from the spec: \<open>SplitKKTResidual::setContactStatus\<close>.\<close>
  "SplitKKTResidual_setContactStatus r contact_status =
     r\<lparr>res_dimf := ContactStatus_dimf contact_status\<rparr>"

definition SplitKKTResidual_dimf :: "SplitKKTResidual \<Rightarrow> nat" where
  \<comment> \<open>Modelled from the spec: \<open>SplitKKTResidual::dimf()\<close>.\<close>
  "SplitKKTResidual_dimf r = res_dimf r"

definition lf :: "SplitKKTResidual \<Rightarrow> VectorXd" where
  \<comment> \<open>Modelled from the spec: \<open>SplitKKTResidual::lf()\<close>.\<close>
  "lf r = head (res_dimf r) (lf_full r)"

definition topLeftCorner :: "nat \<Rightarrow> nat \<Rightarrow> MatrixXd \<Rightarrow> MatrixXd" where
  \<comment> \<open>\<open>M.topLeftCorner(rows, cols)\<close>\<close>
  "topLeftCorner rows cols M = map (take cols) (take rows M)"

definition SplitKKTMatrix_setContactStatus ::
  "SplitKKTMatrix \<Rightarrow> ContactStatus \<Rightarrow> SplitKKTMatrix" where
  \<comment> \<open>Modelled from the spec: \<open>SplitKKTMatrix::setContactStatus\<close>.\<close>
  "SplitKKTMatrix_setContactStatus m contact_status =
     m\<lparr>mat_dimf := ContactStatus_dimf contact_status\<rparr>"

definition SplitKKTMatrix_dimf :: "SplitKKTMatrix \<Rightarrow> nat" where
  \<comment> \<open>Modelled from the spec: \<open>SplitKKTMatrix::dimf()\<close>.\<close>
  "SplitKKTMatrix_dimf m = mat_dimf m"

definition Qff :: "SplitKKTMatrix \<Rightarrow> MatrixXd" where
  \<comment> \<open>Modelled from the spec: \<open>SplitKKTMatrix::Qff()\<close>.\<close>
  "Qff m = topLeftCorner (mat_dimf m) (mat_dimf m) (Qff_full m)"

definition Qqf :: "SplitKKTMatrix \<Rightarrow> MatrixXd" where
  \<comment> \<open>Modelled from the spec: \<open>SplitKKTMatrix::Qqf()\<close>.\<close>
  "Qqf m = topLeftCorner (mat_dimv m) (mat_dimf m) (Qqf_full m)"

definition hf :: "SplitKKTMatrix \<Rightarrow> VectorXd" where
  \<comment> \<open>Modelled from the spec: \<open>SplitKKTMatrix::hf()\<close>.\<close>
  "hf m = head (mat_dimf m) (hf_full m)"

definition is_matrix :: "nat \<Rightarrow> nat \<Rightarrow> MatrixXd \<Rightarrow> bool" where
  \<comment> \<open>a matrix of the given numbers of rows and columns\<close>
  "is_matrix rows cols M = (length M = rows \<and> list_all (\<lambda>row. length row = cols) M)"

definition allocated_for :: "nat \<Rightarrow> SplitKKTResidual \<Rightarrow> SplitKKTMatrix \<Rightarrow> bool" where
  \<comment> \<open>the buffers as the constructors allocate them for a robot whose contact-force stack
      has at most \<open>max_dimf\<close> entries\<close>
  "allocated_for max_dimf r m =
     (length (lf_full r) = max_dimf
      \<and> is_matrix max_dimf max_dimf (Qff_full m)
      \<and> is_matrix (mat_dimv m) max_dimf (Qqf_full m)
      \<and> length (hf_full m) = max_dimf)"

section \<open>hybrid/sto.hxx\<close>

text \<open>
  Of a split KKT residual the switching-time optimization reads the member \<open>h\<close>, the value
  of the Hamiltonian of the stage. The cost and the constraints of the switching times are
  objects of classes that are not modelled (the types \<open>'k\<close> and \<open>'c\<close>).
\<close>

record ('k, 'c) STO =
  sto_cost :: 'k
  sto_constraints :: 'c
  max_num_impulse_events :: int
  sto_kkt_error :: real   \<comment> \<open>\<open>kkt_error_\<close>\<close>
  cost_val :: real
  h_phase :: VectorXd
  is_sto_enabled :: bool

definition STO_ctor :: "'k \<Rightarrow> 'c \<Rightarrow> int \<Rightarrow> exception + ('k, 'c) STO" where
  \<comment> \<open>the constructor has no body; the initializer of \<open>h_phase_\<close> can throw\<close>
  "STO_ctor cost_obj constraints max_events =
     (case Zero (2 * max_events + 1) of
        Inl e \<Rightarrow> Inl e
      | Inr hp \<Rightarrow>
          Inr \<lparr> sto_cost = cost_obj, sto_constraints = constraints,
                max_num_impulse_events = max_events, sto_kkt_error = 0, cost_val = 0,
                h_phase = hp, is_sto_enabled = True \<rparr>)"

definition STO_default :: "'k \<Rightarrow> 'c \<Rightarrow> ('k, 'c) STO" where
  \<comment> \<open>the default constructor; the two arguments stand for its empty shared pointers\<close>
  "STO_default cost_obj constraints =
     \<lparr> sto_cost = cost_obj, sto_constraints = constraints, max_num_impulse_events = 0,
       sto_kkt_error = 0, cost_val = 0, h_phase = [], is_sto_enabled = False \<rparr>"

definition accumulate_h_phase ::
  "TimeDiscretization \<Rightarrow> (SplitKKTResidual, 'i, 's) hybrid_container \<Rightarrow> VectorXd \<Rightarrow> VectorXd"
where
  \<comment> \<open>\<open>h_phase_.setZero()\<close> and the three accumulation loops of \<open>STO::KKTError\<close>\<close>
  "accumulate_h_phase discrete kkt_residual hp =
     (let hp0 = setZero hp;
          hp1 = for_loop (N_grid discrete)
                  (\<lambda>stage v. add_coeffRef v (contactPhase discrete stage)
                                 (res_h (data kkt_residual ! stage))) hp0;
          hp2 = for_loop (N_impulse discrete)
                  (\<lambda>impulse_index v.
                      add_coeffRef v (contactPhaseAfterImpulse discrete impulse_index)
                        (res_h (aux kkt_residual ! impulse_index))) hp1;
          hp3 = for_loop (N_lift discrete)
                  (\<lambda>lift_index v.
                      add_coeffRef v (contactPhaseAfterLift discrete lift_index)
                        (res_h (lift kkt_residual ! lift_index))) hp2
      in hp3)"

definition event_step ::
  "TimeDiscretization \<Rightarrow> VectorXd \<Rightarrow> nat \<Rightarrow> real \<times> nat \<times> nat \<Rightarrow> real \<times> nat \<times> nat"
where
  \<comment> \<open>the body of the loop over the events, on \<open>(kkt_error, impulse_index, lift_index)\<close>\<close>
  "event_step discrete hp event_index st =
     (case st of (kkt_error, impulse_index, lift_index) \<Rightarrow>
        (if eventType discrete event_index = Impulse then
           (if isSTOEnabledImpulse discrete impulse_index then
              (let hdiff = hp ! event_index - hp ! (event_index + 1)
               in (kkt_error + hdiff * hdiff, impulse_index + 1, lift_index))
            else (kkt_error, impulse_index + 1, lift_index))
         else
           (if isSTOEnabledLift discrete lift_index then
              (let hdiff = hp ! event_index - hp ! (event_index + 1)
               in (kkt_error + hdiff * hdiff, impulse_index, lift_index + 1))
            else (kkt_error, impulse_index, lift_index + 1))))"

definition STO_KKTError ::
  "('k, 'c) STO \<Rightarrow> TimeDiscretization \<Rightarrow> (SplitKKTResidual, 'i, 's) hybrid_container
     \<Rightarrow> real \<times> ('k, 'c) STO"
where
  \<comment> \<open>\<open>STO::KKTError(ocp, kkt_residual)\<close>: the value returned and the object, whose
      \<open>h_phase_\<close> the call overwrites\<close>
  "STO_KKTError sto discrete kkt_residual =
     (let hp = accumulate_h_phase discrete kkt_residual (h_phase sto);
          (kkt_error, impulse_index, lift_index) =
             for_loop (N_impulse discrete + N_lift discrete) (event_step discrete hp) (0, 0, 0)
      in (sqrt kkt_error, sto\<lparr>h_phase := hp\<rparr>))"

text \<open>
  The words of the claim: the events before an event that are impulses (lifts) give its
  impulse (lift) index, and with it its switching-time flag; the Hamiltonian of a contact
  phase collects the regular, aux and lift stages of that phase.
\<close>

definition impulses_before :: "TimeDiscretization \<Rightarrow> nat \<Rightarrow> nat" where
  "impulses_before discrete e = length (filter (\<lambda>k. eventType discrete k = Impulse) [0..<e])"

definition lifts_before :: "TimeDiscretization \<Rightarrow> nat \<Rightarrow> nat" where
  "lifts_before discrete e = length (filter (\<lambda>k. eventType discrete k = Lift) [0..<e])"

definition isSTOEnabledEvent_of :: "TimeDiscretization \<Rightarrow> nat \<Rightarrow> bool" where
  "isSTOEnabledEvent_of discrete e =
     (case eventType discrete e of
        Impulse \<Rightarrow> isSTOEnabledImpulse discrete (impulses_before discrete e)
      | Lift \<Rightarrow> isSTOEnabledLift discrete (lifts_before discrete e))"

definition phase_hamiltonian ::
  "TimeDiscretization \<Rightarrow> (SplitKKTResidual, 'i, 's) hybrid_container \<Rightarrow> nat \<Rightarrow> real"
where
  "phase_hamiltonian discrete kkt_residual p =
     (\<Sum>stage\<leftarrow>[0..<N_grid discrete].
         if contactPhase discrete stage = p then res_h (data kkt_residual ! stage) else 0)
     + (\<Sum>i\<leftarrow>[0..<N_impulse discrete].
         if contactPhaseAfterImpulse discrete i = p then res_h (aux kkt_residual ! i) else 0)
     + (\<Sum>i\<leftarrow>[0..<N_lift discrete].
         if contactPhaseAfterLift discrete i = p then res_h (lift kkt_residual ! i) else 0)"

definition event_term :: "TimeDiscretization \<Rightarrow> VectorXd \<Rightarrow> nat \<Rightarrow> real" where
  \<comment> \<open>what the event \<open>e\<close> adds to the squared error, given the Hamiltonians of the phases\<close>
  "event_term discrete hp e =
     (if isSTOEnabledEvent_of discrete e then (hp ! e - hp ! (e + 1))\<^sup>2 else 0)"

subsection \<open>The contact sequence and the direction\<close>

text \<open>
  Modelled from the spec: \<open>ContactSequence\<close> (its header is missing from the sources) holds the ordered
  discrete events; of each impulse event and of each lift event it stores the time,
  \<open>impulseTime\<close> and \<open>liftTime\<close> read the time of one event, and \<open>setImpulseTime\<close> and
  \<open>setLiftTime\<close> replace it. Other members are left open in the record.
\<close>

record ContactSequence =
  impulse_time :: "real list"
  lift_time :: "real list"

definition impulseTime :: "'z ContactSequence_scheme \<Rightarrow> nat \<Rightarrow> real" where
  \<comment> \<open>Modelled from the spec: \<open>ContactSequence::impulseTime\<close>.\<close>
  "impulseTime contact_sequence impulse_index = impulse_time contact_sequence ! impulse_index"

definition liftTime :: "'z ContactSequence_scheme \<Rightarrow> nat \<Rightarrow> real" where
  \<comment> \<open>Modelled from the spec: \<open>ContactSequence::liftTime\<close>.\<close>
  "liftTime contact_sequence lift_index = lift_time contact_sequence ! lift_index"

definition setImpulseTime ::
  "'z ContactSequence_scheme \<Rightarrow> nat \<Rightarrow> real \<Rightarrow> 'z ContactSequence_scheme" where
  \<comment> \<open>Modelled from the spec: \<open>ContactSequence::setImpulseTime\<close>.\<close>
  "setImpulseTime contact_sequence impulse_index t =
     contact_sequence\<lparr>impulse_time := (impulse_time contact_sequence)[impulse_index := t]\<rparr>"

definition setLiftTime ::
  "'z ContactSequence_scheme \<Rightarrow> nat \<Rightarrow> real \<Rightarrow> 'z ContactSequence_scheme" where
  \<comment> \<open>Modelled from the spec: \<open>ContactSequence::setLiftTime\<close>.\<close>
  "setLiftTime contact_sequence lift_index t =
     contact_sequence\<lparr>lift_time := (lift_time contact_sequence)[lift_index := t]\<rparr>"

text \<open>
  Of a split direction the switching-time optimization reads the member \<open>dts\<close>, the
  direction of the switching time; the other members are left open in the record.
\<close>

record SplitDirection =
  dts :: real

subsection \<open>\<open>STO::integrateSolution\<close>\<close>

text \<open>
  The function changes the contact sequence, through the shared pointer it is given, and
  the constraints of the switching times, through the pointer \<open>sto_constraints_\<close>; both
  are returned. \<open>updateSlack\<close> and \<open>updateDual\<close> of the class \<open>STOConstraints\<close> are
  parameters.
\<close>

definition STO_integrateSolution ::
  "('c \<Rightarrow> real \<Rightarrow> 'c) \<Rightarrow> ('c \<Rightarrow> real \<Rightarrow> 'c) \<Rightarrow> ('k, 'c) STO \<Rightarrow> TimeDiscretization
     \<Rightarrow> 'z ContactSequence_scheme \<Rightarrow> real \<Rightarrow> real
     \<Rightarrow> ('y SplitDirection_scheme, 'i, 's) hybrid_container
     \<Rightarrow> 'z ContactSequence_scheme \<times> ('k, 'c) STO"
where
  "STO_integrateSolution updateSlack updateDual sto discrete contact_sequence
       primal_step_size dual_step_size d =
     (if is_sto_enabled sto then
        (let cs1 = for_loop (N_impulse discrete)
                     (\<lambda>impulse_index cs.
                        if isSTOEnabledImpulse discrete impulse_index then
                          (let ts = impulseTime cs impulse_index;
                               ts_new = ts + primal_step_size * dts (aux d ! impulse_index)
                           in setImpulseTime cs impulse_index ts_new)
                        else cs) contact_sequence;
             cs2 = for_loop (N_lift discrete)
                     (\<lambda>lift_index cs.
                        if isSTOEnabledLift discrete lift_index then
                          (let ts = liftTime cs lift_index;
                               ts_new = ts + primal_step_size * dts (lift d ! lift_index)
                           in setLiftTime cs lift_index ts_new)
                        else cs) cs1;
             c1 = updateSlack (sto_constraints sto) primal_step_size;
             c2 = updateDual c1 dual_step_size
         in (cs2, sto\<lparr>sto_constraints := c2\<rparr>))
      else (contact_sequence, sto))"

section \<open>Interior-point data of the constraints\<close>

subsection \<open>constraints/constraint\_component\_data.hpp and constraints/constraints\_data.hpp\<close>

text \<open>
  The members of \<open>ConstraintComponentData\<close>; the scratch vectors \<open>r\<close> and \<open>J\<close> are named
  \<open>r_extra\<close> and \<open>J_extra\<close>, and \<open>dimc_\<close> is \<open>dimc\<close>.
\<close>

record ConstraintComponentData =
  slack :: VectorXd
  dual :: VectorXd
  residual :: VectorXd
  cmpl :: VectorXd
  dslack :: VectorXd
  ddual :: VectorXd
  cond :: VectorXd
  log_barrier :: real
  r_extra :: "VectorXd list"
  J_extra :: "MatrixXd list"
  dimc :: int

record ConstraintsData =
  position_level_data :: "ConstraintComponentData list"
  velocity_level_data :: "ConstraintComponentData list"
  acceleration_level_data :: "ConstraintComponentData list"
  impulse_level_data :: "ConstraintComponentData list"
  is_position_level_valid :: bool
  is_velocity_level_valid :: bool
  is_acceleration_level_valid :: bool
  is_impulse_level_valid :: bool

subsection \<open>The fraction-to-boundary rule\<close>

text \<open>
  Modelled from the spec: the step-size functions of a constraint component (class
  \<open>ConstraintComponentBase\<close>, whose code is missing from the sources). The fraction-to-boundary step of
  a vector \<open>vec\<close> along \<open>dvec\<close> is the largest \<open>\<alpha>\<close> in \<open>(0, 1]\<close> with
  \<open>vec + \<alpha> dvec \<ge> (1 - \<tau>) vec\<close> in every entry: an entry that does not decrease allows
  every step, and an entry that decreases allows steps up to \<open>- \<tau> vec / dvec\<close>. The
  primal step of a component is that of its slack, the dual step that of its dual.
\<close>

fun fractionToBoundary :: "real \<Rightarrow> VectorXd \<Rightarrow> VectorXd \<Rightarrow> real" where
  \<comment> \<open>Modelled from the spec: the fraction-to-boundary step of \<open>vec\<close> along \<open>dvec\<close>.\<close>
  "fractionToBoundary tau (x # vec) (dx # dvec) =
     (if dx < 0 then min (- tau * x / dx) (fractionToBoundary tau vec dvec)
      else fractionToBoundary tau vec dvec)"
| "fractionToBoundary tau _ _ = 1"

definition within_fraction :: "real \<Rightarrow> VectorXd \<Rightarrow> VectorXd \<Rightarrow> real \<Rightarrow> bool" where
  \<comment> \<open>\<open>vec + \<alpha> dvec \<ge> (1 - \<tau>) vec\<close>, entry by entry\<close>
  "within_fraction tau vec dvec alpha =
     list_all2 (\<lambda>x dx. (1 - tau) * x \<le> x + alpha * dx) vec dvec"

definition maxSlackStepSize :: "real \<Rightarrow> ConstraintComponentData \<Rightarrow> real" where
  \<comment> \<open>Modelled from the spec: \<open>ConstraintComponentBase::maxSlackStepSize\<close>.\<close>
  "maxSlackStepSize tau cdata = fractionToBoundary tau (slack cdata) (dslack cdata)"

definition maxDualStepSize :: "real \<Rightarrow> ConstraintComponentData \<Rightarrow> real" where
  \<comment> \<open>Modelled from the spec: \<open>ConstraintComponentBase::maxDualStepSize\<close>.\<close>
  "maxDualStepSize tau cdata = fractionToBoundary tau (dual cdata) (ddual cdata)"

text \<open>
  Modelled from the spec: the update of the slack and of the dual of a component by the
  step applied, \<open>slack \<leftarrow> slack + \<alpha> dslack\<close> and \<open>dual \<leftarrow> dual + \<alpha> ddual\<close>.
\<close>

definition axpy :: "real \<Rightarrow> VectorXd \<Rightarrow> VectorXd \<Rightarrow> VectorXd" where
  \<comment> \<open>\<open>vec + alpha * dvec\<close>\<close>
  "axpy alpha dvec vec = map2 (\<lambda>x dx. x + alpha * dx) vec dvec"

definition component_updateSlack :: "ConstraintComponentData \<Rightarrow> real \<Rightarrow> ConstraintComponentData"
where
  \<comment> \<open>Modelled from the spec: \<open>ConstraintComponentBase::updateSlack\<close>.\<close>
  "component_updateSlack cdata step_size = cdata\<lparr>slack := axpy step_size (dslack cdata) (slack cdata)\<rparr>"

definition component_updateDual :: "ConstraintComponentData \<Rightarrow> real \<Rightarrow> ConstraintComponentData"
where
  \<comment> \<open>Modelled from the spec: \<open>ConstraintComponentBase::updateDual\<close>.\<close>
  "component_updateDual cdata step_size = cdata\<lparr>dual := axpy step_size (ddual cdata) (dual cdata)\<rparr>"

definition positive :: "VectorXd \<Rightarrow> bool" where
  "positive vec = list_all (\<lambda>x. 0 < x) vec"

text \<open>
  One solver iteration at a component: new directions of the slack and of the dual arrive
  from the Newton step, and the slack and the dual move along them by the primal and the
  dual step that the solver applies. A run of iterations is admissible when every
  direction has the dimension of the component and no applied step is negative or exceeds
  the fraction-to-boundary step of the component at that iteration.
\<close>

record iteration =
  new_dslack :: VectorXd
  new_ddual :: VectorXd
  primal_step :: real
  dual_step :: real

definition iterate_component ::
  "ConstraintComponentData \<Rightarrow> iteration \<Rightarrow> ConstraintComponentData" where
  "iterate_component cdata it =
     component_updateDual
       (component_updateSlack (cdata\<lparr>dslack := new_dslack it, ddual := new_ddual it\<rparr>)
          (primal_step it))
       (dual_step it)"

fun admissible :: "real \<Rightarrow> ConstraintComponentData \<Rightarrow> iteration list \<Rightarrow> bool" where
  "admissible tau cdata [] = True"
| "admissible tau cdata (it # its) =
     (length (new_dslack it) = length (slack cdata)
      \<and> length (new_ddual it) = length (dual cdata)
      \<and> 0 \<le> primal_step it
      \<and> primal_step it \<le> maxSlackStepSize tau (cdata\<lparr>dslack := new_dslack it\<rparr>)
      \<and> 0 \<le> dual_step it
      \<and> dual_step it \<le> maxDualStepSize tau (cdata\<lparr>ddual := new_ddual it\<rparr>)
      \<and> admissible tau (iterate_component cdata it) its)"

subsection \<open>Step sizes of a stage\<close>

text \<open>
  Modelled from the spec: \<open>maxPrimalStepSize\<close> and \<open>maxDualStepSize\<close> of a stage worker
  (\<open>SplitOCP\<close>, \<open>ImpulseSplitOCP\<close>, \<open>TerminalOCP\<close>; their code is missing from the sources) return the
  minimum of the step sizes across all constraint components at that stage, a step size
  being at most 1. Of a worker the model keeps the fraction-to-boundary parameter of its
  constraints and its constraints data; the other members are left open in the record.
\<close>

definition components :: "ConstraintsData \<Rightarrow> ConstraintComponentData list" where
  "components cd = position_level_data cd @ velocity_level_data cd
     @ acceleration_level_data cd @ impulse_level_data cd"

record StageOCP =
  fraction_to_boundary_rule :: real
  constraints_data :: ConstraintsData

definition stage_maxPrimalStepSize :: "'z StageOCP_scheme \<Rightarrow> real" where
  \<comment> \<open>Modelled from the spec: \<open>maxPrimalStepSize()\<close> of a stage worker.\<close>
  "stage_maxPrimalStepSize w =
     foldr min (map (maxSlackStepSize (fraction_to_boundary_rule w))
                  (components (constraints_data w))) 1"

definition stage_maxDualStepSize :: "'z StageOCP_scheme \<Rightarrow> real" where
  \<comment> \<open>Modelled from the spec: \<open>maxDualStepSize()\<close> of a stage worker.\<close>
  "stage_maxDualStepSize w =
     foldr min (map (maxDualStepSize (fraction_to_boundary_rule w))
                  (components (constraints_data w))) 1"

section \<open>The Riccati recursion over the horizon\<close>

text \<open>
  Of a split Riccati factorization the recursion over the horizon writes the members \<open>P\<close>
  and \<open>s\<close>, named \<open>fact_P\<close> and \<open>fact_s\<close>; the other members are left open in the record.
\<close>

record SplitRiccatiFactorization =
  fact_P :: MatrixXd
  fact_s :: VectorXd

record ImpulseStatus =
  is_impulse_active :: "bool list"

record ('w, 'iw, 'tw) OCP = "('w, 'iw, unit) hybrid_container" +
  terminal :: 'tw

subsection \<open>\<open>RiccatiRecursion::backwardRiccatiRecursion\<close>\<close>

text \<open>
  The class \<open>RiccatiFactorizer\<close> is not modelled. Its three overloads of
  \<open>backwardRiccatiRecursion\<close> are parameters: each reads the factorization of the next
  stage, and may change the factorizer itself and every other object it is given by
  reference. The overloads are the one of a time stage (also used for the aux and the lift
  stages), the one of an impulse stage, and the one of a time stage followed by a switching
  constraint.
\<close>

record ('fz, 'p, 'zf, 'mi, 'ri, 'ms, 'rs, 'fs) factorizer_ops =
  backward_stage ::
    "'fz \<Rightarrow> 'zf SplitRiccatiFactorization_scheme \<Rightarrow> SplitKKTMatrix \<Rightarrow> SplitKKTResidual
       \<Rightarrow> 'zf SplitRiccatiFactorization_scheme \<Rightarrow> 'p \<Rightarrow> bool \<Rightarrow> bool
       \<Rightarrow> 'fz \<times> SplitKKTMatrix \<times> SplitKKTResidual \<times> 'zf SplitRiccatiFactorization_scheme \<times> 'p"
  backward_impulse ::
    "'fz \<Rightarrow> 'zf SplitRiccatiFactorization_scheme \<Rightarrow> 'mi \<Rightarrow> 'ri
       \<Rightarrow> 'zf SplitRiccatiFactorization_scheme \<Rightarrow> bool
       \<Rightarrow> 'fz \<times> 'mi \<times> 'ri \<times> 'zf SplitRiccatiFactorization_scheme"
  backward_switching ::
    "'fz \<Rightarrow> 'zf SplitRiccatiFactorization_scheme \<Rightarrow> SplitKKTMatrix \<Rightarrow> SplitKKTResidual
       \<Rightarrow> 'ms \<Rightarrow> 'rs \<Rightarrow> 'zf SplitRiccatiFactorization_scheme \<Rightarrow> 'fs \<Rightarrow> 'p \<Rightarrow> bool \<Rightarrow> bool
       \<Rightarrow> 'fz \<times> SplitKKTMatrix \<times> SplitKKTResidual \<times> 'ms \<times> 'rs
           \<times> 'zf SplitRiccatiFactorization_scheme \<times> 'fs \<times> 'p"

text \<open>
  The objects that the function changes: the members \<open>factorizer_\<close> and \<open>lqr_policy_\<close> of
  the recursion, and the arguments \<open>kkt_matrix\<close>, \<open>kkt_residual\<close> and \<open>factorization\<close>.
\<close>

record ('fz, 'p, 'zf, 'mi, 'ri, 'ms, 'rs, 'fs) riccati_state =
  st_factorizer :: 'fz
  st_lqr_policy :: "('p, unit, unit) hybrid_container"
  st_kkt_matrix :: "(SplitKKTMatrix, 'mi, 'ms) hybrid_container"
  st_kkt_residual :: "(SplitKKTResidual, 'ri, 'rs) hybrid_container"
  st_factorization ::
    "('zf SplitRiccatiFactorization_scheme, 'zf SplitRiccatiFactorization_scheme, 'fs)
       hybrid_container"

definition factorize_stage ::
  "('fz, 'p, 'zf, 'mi, 'ri, 'ms, 'rs, 'fs) factorizer_ops
     \<Rightarrow> 'zf SplitRiccatiFactorization_scheme \<Rightarrow> nat \<Rightarrow> bool \<Rightarrow> bool
     \<Rightarrow> ('fz, 'p, 'zf, 'mi, 'ri, 'ms, 'rs, 'fs) riccati_state
     \<Rightarrow> ('fz, 'p, 'zf, 'mi, 'ri, 'ms, 'rs, 'fs) riccati_state"
where
  \<comment> \<open>\<open>factorizer_.backwardRiccatiRecursion(riccati_next, kkt_matrix[i], kkt_residual[i],
      factorization[i], lqr_policy_[i], sto, sto_next)\<close>\<close>
  "factorize_stage ops riccati_next i sto sto_next st =
     (case backward_stage ops (st_factorizer st) riccati_next
             (data (st_kkt_matrix st) ! i) (data (st_kkt_residual st) ! i)
             (data (st_factorization st) ! i) (data (st_lqr_policy st) ! i) sto sto_next
      of (fz, m, r, f, p) \<Rightarrow>
        st\<lparr> st_factorizer := fz,
            st_lqr_policy := (st_lqr_policy st)\<lparr>data := (data (st_lqr_policy st))[i := p]\<rparr>,
            st_kkt_matrix := (st_kkt_matrix st)\<lparr>data := (data (st_kkt_matrix st))[i := m]\<rparr>,
            st_kkt_residual :=
              (st_kkt_residual st)\<lparr>data := (data (st_kkt_residual st))[i := r]\<rparr>,
            st_factorization :=
              (st_factorization st)\<lparr>data := (data (st_factorization st))[i := f]\<rparr> \<rparr>)"

definition factorize_aux ::
  "('fz, 'p, 'zf, 'mi, 'ri, 'ms, 'rs, 'fs) factorizer_ops
     \<Rightarrow> 'zf SplitRiccatiFactorization_scheme \<Rightarrow> nat \<Rightarrow> bool \<Rightarrow> bool
     \<Rightarrow> ('fz, 'p, 'zf, 'mi, 'ri, 'ms, 'rs, 'fs) riccati_state
     \<Rightarrow> ('fz, 'p, 'zf, 'mi, 'ri, 'ms, 'rs, 'fs) riccati_state"
where
  \<comment> \<open>the same overload on \<open>kkt_matrix.aux[impulse_index]\<close>, \<open>kkt_residual.aux[impulse_index]\<close>,
      \<open>factorization.aux[impulse_index]\<close> and \<open>lqr_policy_.aux[impulse_index]\<close>\<close>
  "factorize_aux ops riccati_next impulse_index sto sto_next st =
     (case backward_stage ops (st_factorizer st) riccati_next
             (aux (st_kkt_matrix st) ! impulse_index) (aux (st_kkt_residual st) ! impulse_index)
             (aux (st_factorization st) ! impulse_index)
             (aux (st_lqr_policy st) ! impulse_index) sto sto_next
      of (fz, m, r, f, p) \<Rightarrow>
        st\<lparr> st_factorizer := fz,
            st_lqr_policy :=
              (st_lqr_policy st)\<lparr>aux := (aux (st_lqr_policy st))[impulse_index := p]\<rparr>,
            st_kkt_matrix :=
              (st_kkt_matrix st)\<lparr>aux := (aux (st_kkt_matrix st))[impulse_index := m]\<rparr>,
            st_kkt_residual :=
              (st_kkt_residual st)\<lparr>aux := (aux (st_kkt_residual st))[impulse_index := r]\<rparr>,
            st_factorization :=
              (st_factorization st)\<lparr>aux := (aux (st_factorization st))[impulse_index := f]\<rparr> \<rparr>)"

definition factorize_lift ::
  "('fz, 'p, 'zf, 'mi, 'ri, 'ms, 'rs, 'fs) factorizer_ops
     \<Rightarrow> 'zf SplitRiccatiFactorization_scheme \<Rightarrow> nat \<Rightarrow> bool \<Rightarrow> bool
     \<Rightarrow> ('fz, 'p, 'zf, 'mi, 'ri, 'ms, 'rs, 'fs) riccati_state
     \<Rightarrow> ('fz, 'p, 'zf, 'mi, 'ri, 'ms, 'rs, 'fs) riccati_state"
where
  \<comment> \<open>the same overload on the \<open>lift[lift_index]\<close> entries\<close>
  "factorize_lift ops riccati_next lift_index sto sto_next st =
     (case backward_stage ops (st_factorizer st) riccati_next
             (lift (st_kkt_matrix st) ! lift_index) (lift (st_kkt_residual st) ! lift_index)
             (lift (st_factorization st) ! lift_index)
             (lift (st_lqr_policy st) ! lift_index) sto sto_next
      of (fz, m, r, f, p) \<Rightarrow>
        st\<lparr> st_factorizer := fz,
            st_lqr_policy :=
              (st_lqr_policy st)\<lparr>lift := (lift (st_lqr_policy st))[lift_index := p]\<rparr>,
            st_kkt_matrix :=
              (st_kkt_matrix st)\<lparr>lift := (lift (st_kkt_matrix st))[lift_index := m]\<rparr>,
            st_kkt_residual :=
              (st_kkt_residual st)\<lparr>lift := (lift (st_kkt_residual st))[lift_index := r]\<rparr>,
            st_factorization :=
              (st_factorization st)\<lparr>lift := (lift (st_factorization st))[lift_index := f]\<rparr> \<rparr>)"

definition factorize_impulse ::
  "('fz, 'p, 'zf, 'mi, 'ri, 'ms, 'rs, 'fs) factorizer_ops
     \<Rightarrow> 'zf SplitRiccatiFactorization_scheme \<Rightarrow> nat \<Rightarrow> bool
     \<Rightarrow> ('fz, 'p, 'zf, 'mi, 'ri, 'ms, 'rs, 'fs) riccati_state
     \<Rightarrow> ('fz, 'p, 'zf, 'mi, 'ri, 'ms, 'rs, 'fs) riccati_state"
where
  \<comment> \<open>\<open>factorizer_.backwardRiccatiRecursion(riccati_next, kkt_matrix.impulse[impulse_index],
      kkt_residual.impulse[impulse_index], factorization.impulse[impulse_index], sto)\<close>\<close>
  "factorize_impulse ops riccati_next impulse_index sto st =
     (case backward_impulse ops (st_factorizer st) riccati_next
             (impulse (st_kkt_matrix st) ! impulse_index)
             (impulse (st_kkt_residual st) ! impulse_index)
             (impulse (st_factorization st) ! impulse_index) sto
      of (fz, m, r, f) \<Rightarrow>
        st\<lparr> st_factorizer := fz,
            st_kkt_matrix :=
              (st_kkt_matrix st)\<lparr>impulse := (impulse (st_kkt_matrix st))[impulse_index := m]\<rparr>,
            st_kkt_residual :=
              (st_kkt_residual st)
                \<lparr>impulse := (impulse (st_kkt_residual st))[impulse_index := r]\<rparr>,
            st_factorization :=
              (st_factorization st)
                \<lparr>impulse := (impulse (st_factorization st))[impulse_index := f]\<rparr> \<rparr>)"

definition factorize_switching ::
  "('fz, 'p, 'zf, 'mi, 'ri, 'ms, 'rs, 'fs) factorizer_ops
     \<Rightarrow> 'zf SplitRiccatiFactorization_scheme \<Rightarrow> nat \<Rightarrow> nat \<Rightarrow> bool \<Rightarrow> bool
     \<Rightarrow> ('fz, 'p, 'zf, 'mi, 'ri, 'ms, 'rs, 'fs) riccati_state
     \<Rightarrow> ('fz, 'p, 'zf, 'mi, 'ri, 'ms, 'rs, 'fs) riccati_state"
where
  \<comment> \<open>\<open>factorizer_.backwardRiccatiRecursion(riccati_next, kkt_matrix[j], kkt_residual[j],
      kkt_matrix.switching[impulse_index], kkt_residual.switching[impulse_index],
      factorization[j], factorization.switching[impulse_index], lqr_policy_[j], sto,
      sto_next)\<close>, called with \<open>j = i-1\<close>\<close>
  "factorize_switching ops riccati_next j impulse_index sto sto_next st =
     (case backward_switching ops (st_factorizer st) riccati_next
             (data (st_kkt_matrix st) ! j) (data (st_kkt_residual st) ! j)
             (switching (st_kkt_matrix st) ! impulse_index)
             (switching (st_kkt_residual st) ! impulse_index)
             (data (st_factorization st) ! j)
             (switching (st_factorization st) ! impulse_index)
             (data (st_lqr_policy st) ! j) sto sto_next
      of (fz, m, r, ms, rs, f, fs, p) \<Rightarrow>
        st\<lparr> st_factorizer := fz,
            st_lqr_policy := (st_lqr_policy st)\<lparr>data := (data (st_lqr_policy st))[j := p]\<rparr>,
            st_kkt_matrix :=
              (st_kkt_matrix st)
                \<lparr>data := (data (st_kkt_matrix st))[j := m],
                 switching := (switching (st_kkt_matrix st))[impulse_index := ms]\<rparr>,
            st_kkt_residual :=
              (st_kkt_residual st)
                \<lparr>data := (data (st_kkt_residual st))[j := r],
                 switching := (switching (st_kkt_residual st))[impulse_index := rs]\<rparr>,
            st_factorization :=
              (st_factorization st)
                \<lparr>data := (data (st_factorization st))[j := f],
                 switching := (switching (st_factorization st))[impulse_index := fs]\<rparr> \<rparr>)"

definition backward_body ::
  "('fz, 'p, 'zf, 'mi, 'ri, 'ms, 'rs, 'fs) factorizer_ops \<Rightarrow> TimeDiscretization \<Rightarrow> nat
     \<Rightarrow> ('fz, 'p, 'zf, 'mi, 'ri, 'ms, 'rs, 'fs) riccati_state
     \<Rightarrow> ('fz, 'p, 'zf, 'mi, 'ri, 'ms, 'rs, 'fs) riccati_state"
where
  \<comment> \<open>the body of the loop over \<open>i\<close>; the two \<open>assert\<close>s of the source are not compiled
      into a release build and are left out\<close>
  "backward_body ops discrete i st =
     (if isTimeStageBeforeImpulse discrete i then
        (let impulse_index = impulseIndexAfterTimeStage discrete i;
             phase = contactPhase discrete i;
             sto = isSTOEnabledPhase discrete phase;
             sto_next = isSTOEnabledNextPhase discrete phase;
             sto_next_next = isSTOEnabledNextPhase discrete (phase + 1);
             st1 = factorize_aux ops (data (st_factorization st) ! (i + 1)) impulse_index
                     sto_next sto_next_next st;
             st2 = factorize_impulse ops (aux (st_factorization st1) ! impulse_index)
                     impulse_index sto st1;
             st3 = factorize_stage ops (impulse (st_factorization st2) ! impulse_index) i
                     sto sto_next st2
         in if 1 \<le> i
            then factorize_switching ops (data (st_factorization st3) ! i) (i - 1)
                   impulse_index sto sto_next st3
            else st3)
      else if isTimeStageBeforeLift discrete i then
        (let lift_index = liftIndexAfterTimeStage discrete i;
             phase = contactPhase discrete i;
             sto = isSTOEnabledPhase discrete phase;
             sto_next = isSTOEnabledNextPhase discrete phase;
             sto_next_next = isSTOEnabledNextPhase discrete (phase + 1);
             st1 = factorize_lift ops (data (st_factorization st) ! (i + 1)) lift_index
                     sto_next sto_next_next st
         in factorize_stage ops (lift (st_factorization st1) ! lift_index) i sto sto_next st1)
      else if \<not> isTimeStageBeforeImpulse discrete (i + 1) then
        (let phase = contactPhase discrete i;
             sto = isSTOEnabledPhase discrete phase;
             sto_next = isSTOEnabledNextPhase discrete (phase + 1)
         in factorize_stage ops (data (st_factorization st) ! (i + 1)) i sto sto_next st)
      else st)"

definition initialize_terminal ::
  "TimeDiscretization \<Rightarrow> ('fz, 'p, 'zf, 'mi, 'ri, 'ms, 'rs, 'fs) riccati_state
     \<Rightarrow> ('fz, 'p, 'zf, 'mi, 'ri, 'ms, 'rs, 'fs) riccati_state"
where
  \<comment> \<open>\<open>factorization[N].P = kkt_matrix[N].Qxx; factorization[N].s = - kkt_residual[N].lx;\<close>\<close>
  "initialize_terminal discrete st =
     (let N = N_grid discrete;
          f = data (st_factorization st) ! N;
          f1 = f\<lparr>fact_P := Qxx (data (st_kkt_matrix st) ! N)\<rparr>;
          f2 = f1\<lparr>fact_s := map uminus (lx (data (st_kkt_residual st) ! N))\<rparr>
      in st\<lparr>st_factorization :=
              (st_factorization st)\<lparr>data := (data (st_factorization st))[N := f2]\<rparr>\<rparr>)"

definition backwardRiccatiRecursion ::
  "('fz, 'p, 'zf, 'mi, 'ri, 'ms, 'rs, 'fs) factorizer_ops \<Rightarrow> TimeDiscretization
     \<Rightarrow> ('fz, 'p, 'zf, 'mi, 'ri, 'ms, 'rs, 'fs) riccati_state
     \<Rightarrow> ('fz, 'p, 'zf, 'mi, 'ri, 'ms, 'rs, 'fs) riccati_state"
where
  \<comment> \<open>\<open>ocp.discrete()\<close> is the argument \<open>discrete\<close>\<close>
  "backwardRiccatiRecursion ops discrete st =
     for_loop_down (N_grid discrete) (backward_body ops discrete)
       (initialize_terminal discrete st)"

definition terminal_slot ::
  "nat \<Rightarrow> ('fz, 'p, 'zf, 'mi, 'ri, 'ms, 'rs, 'fs) riccati_state
     \<Rightarrow> 'zf SplitRiccatiFactorization_scheme \<times> SplitKKTMatrix \<times> SplitKKTResidual"
where
  \<comment> \<open>\<open>factorization[N]\<close>, \<open>kkt_matrix[N]\<close> and \<open>kkt_residual[N]\<close>\<close>
  "terminal_slot N st =
     (data (st_factorization st) ! N, data (st_kkt_matrix st) ! N,
      data (st_kkt_residual st) ! N)"

subsection \<open>\<open>RiccatiRecursion::computeDirection\<close> and the step sizes\<close>

text \<open>
  The static functions of \<open>RiccatiFactorizer\<close>, the member functions \<open>expandPrimal\<close> of
  the stage workers and \<open>setImpulseStatus\<close> of a split direction, and the accessors
  \<open>contactStatus\<close> and \<open>impulseStatus\<close> of the contact sequence are not modelled and are
  parameters. \<open>expandPrimal\<close> changes the worker it is called on and the direction it is
  given. The workers of the time, aux and lift stages have the type \<open>'w\<close>, those of the
  impulse stages the type \<open>'iw\<close>, and the terminal worker the type \<open>'tw\<close>.
\<close>

record ('f, 'fs, 'd, 'di, 'w, 'iw, 'cs) direction_ops =
  computeCostateDirection :: "'f \<Rightarrow> 'd \<Rightarrow> bool \<Rightarrow> bool \<Rightarrow> 'd"
  computeCostateDirection_impulse :: "'f \<Rightarrow> 'di \<Rightarrow> bool \<Rightarrow> 'di"
  computeLagrangeMultiplierDirection :: "'fs \<Rightarrow> 'd \<Rightarrow> bool \<Rightarrow> bool \<Rightarrow> 'd"
  expandPrimal :: "'w \<Rightarrow> ContactStatus \<Rightarrow> 'd \<Rightarrow> 'w \<times> 'd"
  expandPrimal_impulse :: "'iw \<Rightarrow> ImpulseStatus \<Rightarrow> 'di \<Rightarrow> 'iw \<times> 'di"
  setImpulseStatus :: "'d \<Rightarrow> ImpulseStatus \<Rightarrow> 'd"
  contactStatus :: "'cs \<Rightarrow> nat \<Rightarrow> ContactStatus"
  impulseStatus :: "'cs \<Rightarrow> nat \<Rightarrow> ImpulseStatus"

definition store_step_sizes :: "nat \<Rightarrow> real \<Rightarrow> real \<Rightarrow> RiccatiRecursion \<Rightarrow> RiccatiRecursion"
where
  \<comment> \<open>\<open>max_primal_step_sizes_.coeffRef(i) = p; max_dual_step_sizes_.coeffRef(i) = q;\<close>\<close>
  "store_step_sizes i p q rr =
     rr\<lparr> max_primal_step_sizes := (max_primal_step_sizes rr)[i := p],
         max_dual_step_sizes := (max_dual_step_sizes rr)[i := q] \<rparr>"

definition computeDirection_stage ::
  "('f, 'fs, 'd, 'di, 'y StageOCP_scheme, 'yi StageOCP_scheme, 'cs) direction_ops
     \<Rightarrow> TimeDiscretization \<Rightarrow> 'cs \<Rightarrow> ('f, 'f, 'fs) hybrid_container \<Rightarrow> nat
     \<Rightarrow> ('y StageOCP_scheme, 'yi StageOCP_scheme, 'yt StageOCP_scheme) OCP
          \<times> ('d, 'di, 'sd) hybrid_container \<times> RiccatiRecursion
     \<Rightarrow> ('y StageOCP_scheme, 'yi StageOCP_scheme, 'yt StageOCP_scheme) OCP
          \<times> ('d, 'di, 'sd) hybrid_container \<times> RiccatiRecursion"
where
  \<comment> \<open>the branch \<open>i < N\<close>\<close>
  "computeDirection_stage ops discrete contact_sequence factorization i st =
     (case st of (ocp, d, rr) \<Rightarrow>
        (let phase = contactPhase discrete i;
             sto = isSTOEnabledPhase discrete phase;
             sto_next = isSTOEnabledNextPhase discrete (phase + 1);
             d_i = computeCostateDirection ops (data factorization ! i) (data d ! i)
                     sto sto_next;
             (w, d_i') =
               (if isTimeStageBeforeImpulse discrete i then
                  expandPrimal ops (data ocp ! i)
                    (contactStatus ops contact_sequence (contactPhase discrete i)) d_i
                else if isTimeStageBeforeLift discrete i then
                  expandPrimal ops (data ocp ! i)
                    (contactStatus ops contact_sequence (contactPhase discrete i)) d_i
                else if isTimeStageBeforeImpulse discrete (i + 1) then
                  (let impulse_index = impulseIndexAfterTimeStage discrete (i + 1);
                       (w1, d1) = expandPrimal ops (data ocp ! i)
                         (contactStatus ops contact_sequence (contactPhase discrete i)) d_i;
                       d2 = setImpulseStatus ops d1
                              (impulseStatus ops contact_sequence impulse_index)
                   in (w1, computeLagrangeMultiplierDirection ops
                             (switching factorization ! impulse_index) d2 sto sto_next))
                else
                  expandPrimal ops (data ocp ! i)
                    (contactStatus ops contact_sequence (contactPhase discrete i)) d_i);
             ocp' = ocp\<lparr>data := (data ocp)[i := w]\<rparr>
         in (ocp', d\<lparr>data := (data d)[i := d_i']\<rparr>,
             store_step_sizes i (stage_maxPrimalStepSize (data ocp' ! i))
               (stage_maxDualStepSize (data ocp' ! i)) rr)))"

definition computeDirection_terminal ::
  "('f, 'fs, 'd, 'di, 'y StageOCP_scheme, 'yi StageOCP_scheme, 'cs) direction_ops
     \<Rightarrow> TimeDiscretization \<Rightarrow> ('f, 'f, 'fs) hybrid_container
     \<Rightarrow> ('y StageOCP_scheme, 'yi StageOCP_scheme, 'yt StageOCP_scheme) OCP
          \<times> ('d, 'di, 'sd) hybrid_container \<times> RiccatiRecursion
     \<Rightarrow> ('y StageOCP_scheme, 'yi StageOCP_scheme, 'yt StageOCP_scheme) OCP
          \<times> ('d, 'di, 'sd) hybrid_container \<times> RiccatiRecursion"
where
  \<comment> \<open>the branch \<open>i == N\<close>\<close>
  "computeDirection_terminal ops discrete factorization st =
     (case st of (ocp, d, rr) \<Rightarrow>
        (let N = N_grid discrete;
             d_N = computeCostateDirection ops (data factorization ! N) (data d ! N)
                     False False
         in (ocp, d\<lparr>data := (data d)[N := d_N]\<rparr>,
             store_step_sizes N (stage_maxPrimalStepSize (terminal ocp))
               (stage_maxDualStepSize (terminal ocp)) rr)))"

definition computeDirection_impulse ::
  "('f, 'fs, 'd, 'di, 'y StageOCP_scheme, 'yi StageOCP_scheme, 'cs) direction_ops
     \<Rightarrow> TimeDiscretization \<Rightarrow> 'cs \<Rightarrow> ('f, 'f, 'fs) hybrid_container \<Rightarrow> nat
     \<Rightarrow> ('y StageOCP_scheme, 'yi StageOCP_scheme, 'yt StageOCP_scheme) OCP
          \<times> ('d, 'di, 'sd) hybrid_container \<times> RiccatiRecursion
     \<Rightarrow> ('y StageOCP_scheme, 'yi StageOCP_scheme, 'yt StageOCP_scheme) OCP
          \<times> ('d, 'di, 'sd) hybrid_container \<times> RiccatiRecursion"
where
  \<comment> \<open>the branch \<open>i < N + 1 + N_impulse\<close>\<close>
  "computeDirection_impulse ops discrete contact_sequence factorization i st =
     (case st of (ocp, d, rr) \<Rightarrow>
        (let impulse_index = i - (N_grid discrete + 1);
             phase = contactPhaseAfterImpulse discrete impulse_index;
             sto = isSTOEnabledPhase discrete phase;
             d_i = computeCostateDirection_impulse ops (impulse factorization ! impulse_index)
                     (impulse d ! impulse_index) sto;
             (w, d_i') = expandPrimal_impulse ops (impulse ocp ! impulse_index)
                           (impulseStatus ops contact_sequence impulse_index) d_i;
             ocp' = ocp\<lparr>impulse := (impulse ocp)[impulse_index := w]\<rparr>
         in (ocp', d\<lparr>impulse := (impulse d)[impulse_index := d_i']\<rparr>,
             store_step_sizes i (stage_maxPrimalStepSize (impulse ocp' ! impulse_index))
               (stage_maxDualStepSize (impulse ocp' ! impulse_index)) rr)))"

definition computeDirection_aux ::
  "('f, 'fs, 'd, 'di, 'y StageOCP_scheme, 'yi StageOCP_scheme, 'cs) direction_ops
     \<Rightarrow> TimeDiscretization \<Rightarrow> 'cs \<Rightarrow> ('f, 'f, 'fs) hybrid_container \<Rightarrow> nat
     \<Rightarrow> ('y StageOCP_scheme, 'yi StageOCP_scheme, 'yt StageOCP_scheme) OCP
          \<times> ('d, 'di, 'sd) hybrid_container \<times> RiccatiRecursion
     \<Rightarrow> ('y StageOCP_scheme, 'yi StageOCP_scheme, 'yt StageOCP_scheme) OCP
          \<times> ('d, 'di, 'sd) hybrid_container \<times> RiccatiRecursion"
where
  \<comment> \<open>the branch \<open>i < N + 1 + 2*N_impulse\<close>\<close>
  "computeDirection_aux ops discrete contact_sequence factorization i st =
     (case st of (ocp, d, rr) \<Rightarrow>
        (let impulse_index = i - (N_grid discrete + 1 + N_impulse discrete);
             phase = contactPhaseAfterImpulse discrete impulse_index;
             sto = isSTOEnabledPhase discrete phase;
             sto_next = isSTOEnabledNextPhase discrete phase;
             d_i = computeCostateDirection ops (aux factorization ! impulse_index)
                     (aux d ! impulse_index) sto sto_next;
             (w, d_i') = expandPrimal ops (aux ocp ! impulse_index)
                           (contactStatus ops contact_sequence
                              (contactPhaseAfterImpulse discrete impulse_index)) d_i;
             ocp' = ocp\<lparr>aux := (aux ocp)[impulse_index := w]\<rparr>
         in (ocp', d\<lparr>aux := (aux d)[impulse_index := d_i']\<rparr>,
             store_step_sizes i (stage_maxPrimalStepSize (aux ocp' ! impulse_index))
               (stage_maxDualStepSize (aux ocp' ! impulse_index)) rr)))"

definition computeDirection_lift ::
  "('f, 'fs, 'd, 'di, 'y StageOCP_scheme, 'yi StageOCP_scheme, 'cs) direction_ops
     \<Rightarrow> TimeDiscretization \<Rightarrow> 'cs \<Rightarrow> ('f, 'f, 'fs) hybrid_container \<Rightarrow> nat
     \<Rightarrow> ('y StageOCP_scheme, 'yi StageOCP_scheme, 'yt StageOCP_scheme) OCP
          \<times> ('d, 'di, 'sd) hybrid_container \<times> RiccatiRecursion
     \<Rightarrow> ('y StageOCP_scheme, 'yi StageOCP_scheme, 'yt StageOCP_scheme) OCP
          \<times> ('d, 'di, 'sd) hybrid_container \<times> RiccatiRecursion"
where
  \<comment> \<open>the last branch\<close>
  "computeDirection_lift ops discrete contact_sequence factorization i st =
     (case st of (ocp, d, rr) \<Rightarrow>
        (let lift_index = i - (N_grid discrete + 1 + 2 * N_impulse discrete);
             phase = contactPhaseAfterLift discrete lift_index;
             sto = isSTOEnabledPhase discrete phase;
             sto_next = isSTOEnabledNextPhase discrete phase;
             d_i = computeCostateDirection ops (lift factorization ! lift_index)
                     (lift d ! lift_index) sto sto_next;
             (w, d_i') = expandPrimal ops (lift ocp ! lift_index)
                           (contactStatus ops contact_sequence
                              (contactPhaseAfterLift discrete lift_index)) d_i;
             ocp' = ocp\<lparr>lift := (lift ocp)[lift_index := w]\<rparr>
         in (ocp', d\<lparr>lift := (lift d)[lift_index := d_i']\<rparr>,
             store_step_sizes i (stage_maxPrimalStepSize (lift ocp' ! lift_index))
               (stage_maxDualStepSize (lift ocp' ! lift_index)) rr)))"

definition computeDirection_body ::
  "('f, 'fs, 'd, 'di, 'y StageOCP_scheme, 'yi StageOCP_scheme, 'cs) direction_ops
     \<Rightarrow> TimeDiscretization \<Rightarrow> 'cs \<Rightarrow> ('f, 'f, 'fs) hybrid_container \<Rightarrow> nat
     \<Rightarrow> ('y StageOCP_scheme, 'yi StageOCP_scheme, 'yt StageOCP_scheme) OCP
          \<times> ('d, 'di, 'sd) hybrid_container \<times> RiccatiRecursion
     \<Rightarrow> ('y StageOCP_scheme, 'yi StageOCP_scheme, 'yt StageOCP_scheme) OCP
          \<times> ('d, 'di, 'sd) hybrid_container \<times> RiccatiRecursion"
where
  "computeDirection_body ops discrete contact_sequence factorization i st =
     (if i < N_grid discrete then
        computeDirection_stage ops discrete contact_sequence factorization i st
      else if i = N_grid discrete then
        computeDirection_terminal ops discrete factorization st
      else if i < N_grid discrete + 1 + N_impulse discrete then
        computeDirection_impulse ops discrete contact_sequence factorization i st
      else if i < N_grid discrete + 1 + 2 * N_impulse discrete then
        computeDirection_aux ops discrete contact_sequence factorization i st
      else computeDirection_lift ops discrete contact_sequence factorization i st)"

definition num_stage_slots :: "TimeDiscretization \<Rightarrow> nat" where
  \<comment> \<open>the local \<open>N_all\<close> of \<open>computeDirection\<close>\<close>
  "num_stage_slots discrete =
     N_grid discrete + 1 + 2 * N_impulse discrete + N_lift discrete"

definition computeDirection ::
  "('f, 'fs, 'd, 'di, 'y StageOCP_scheme, 'yi StageOCP_scheme, 'cs) direction_ops
     \<Rightarrow> TimeDiscretization \<Rightarrow> 'cs \<Rightarrow> ('f, 'f, 'fs) hybrid_container
     \<Rightarrow> ('y StageOCP_scheme, 'yi StageOCP_scheme, 'yt StageOCP_scheme) OCP
          \<times> ('d, 'di, 'sd) hybrid_container \<times> RiccatiRecursion
     \<Rightarrow> ('y StageOCP_scheme, 'yi StageOCP_scheme, 'yt StageOCP_scheme) OCP
          \<times> ('d, 'di, 'sd) hybrid_container \<times> RiccatiRecursion"
where
  \<comment> \<open>The iterations of the \<open>omp parallel for\<close> write to distinct slots and read nothing
      that another iteration writes; they are run in the order of the index. The objects
      changed are \<open>ocp\<close>, \<open>d\<close> and the recursion itself.\<close>
  "computeDirection ops discrete contact_sequence factorization st =
     (case for_loop (num_stage_slots discrete)
             (computeDirection_body ops discrete contact_sequence factorization) st
      of (ocp, d, rr) \<Rightarrow> (ocp, d, rr\<lparr>N_all := int (num_stage_slots discrete)\<rparr>))"

definition minCoeff :: "VectorXd \<Rightarrow> real" where
  \<comment> \<open>Eigen's \<open>minCoeff()\<close>, which requires a vector that is not empty\<close>
  "minCoeff v = fold min (tl v) (hd v)"

definition RiccatiRecursion_maxPrimalStepSize :: "RiccatiRecursion \<Rightarrow> real" where
  "RiccatiRecursion_maxPrimalStepSize rr =
     minCoeff (head (nat (N_all rr)) (max_primal_step_sizes rr))"

definition RiccatiRecursion_maxDualStepSize :: "RiccatiRecursion \<Rightarrow> real" where
  "RiccatiRecursion_maxDualStepSize rr =
     minCoeff (head (nat (N_all rr)) (max_dual_step_sizes rr))"

text \<open>
  The stage slots in the order of the loop: the time stages, the terminal stage, the
  impulse stages, the aux stages and the lift stages. \<open>stage_slots\<close> lists a quantity of
  the workers (\<open>fw\<close> for a time, aux or lift stage, \<open>fi\<close> for an impulse stage, \<open>ft\<close> for
  the terminal stage) slot by slot, and \<open>slot_value\<close> gives it for one slot, with the
  index arithmetic of the loop.
\<close>

definition stage_slots ::
  "('w \<Rightarrow> real) \<Rightarrow> ('iw \<Rightarrow> real) \<Rightarrow> ('tw \<Rightarrow> real) \<Rightarrow> TimeDiscretization
     \<Rightarrow> ('w, 'iw, 'tw) OCP \<Rightarrow> real list"
where
  "stage_slots fw fi ft discrete ocp =
     map fw (take (N_grid discrete) (data ocp))
     @ [ft (terminal ocp)]
     @ map fi (take (N_impulse discrete) (impulse ocp))
     @ map fw (take (N_impulse discrete) (aux ocp))
     @ map fw (take (N_lift discrete) (lift ocp))"

definition slot_value ::
  "('w \<Rightarrow> real) \<Rightarrow> ('iw \<Rightarrow> real) \<Rightarrow> ('tw \<Rightarrow> real) \<Rightarrow> TimeDiscretization
     \<Rightarrow> ('w, 'iw, 'tw) OCP \<Rightarrow> nat \<Rightarrow> real"
where
  "slot_value fw fi ft discrete ocp i =
     (if i < N_grid discrete then fw (data ocp ! i)
      else if i = N_grid discrete then ft (terminal ocp)
      else if i < N_grid discrete + 1 + N_impulse discrete
        then fi (impulse ocp ! (i - (N_grid discrete + 1)))
      else if i < N_grid discrete + 1 + 2 * N_impulse discrete
        then fw (aux ocp ! (i - (N_grid discrete + 1 + N_impulse discrete)))
      else fw (lift ocp ! (i - (N_grid discrete + 1 + 2 * N_impulse discrete))))"

definition containers_in_range :: "TimeDiscretization \<Rightarrow> ('w, 'iw, 'tw) OCP \<Rightarrow> bool" where
  \<comment> \<open>every index of a worker that the loop uses lies inside its container\<close>
  "containers_in_range discrete ocp =
     (N_grid discrete \<le> length (data ocp)
      \<and> N_impulse discrete \<le> length (impulse ocp)
      \<and> N_impulse discrete \<le> length (aux ocp)
      \<and> N_lift discrete \<le> length (lift ocp))"

section \<open>The switching constraint\<close>

subsection \<open>The robot model and the split solution\<close>

text \<open>
  The robot is an external collaborator. Of \<open>Robot\<close> the model keeps what the switching
  constraint and its test use: the configuration that \<open>updateKinematics\<close> was last given,
  on which the contact kinematics depend, the flag of the floating base, and as fields the
  functions of the robotics library: the Lie-group integration \<open>q \<oplus> dt v\<close>, the contact
  position residual and its derivative at a configuration, and the transports of a Jacobian
  through the integration. Of a split solution it keeps \<open>q\<close>, \<open>v\<close> and \<open>a\<close>, named
  \<open>sol_q\<close>, \<open>sol_v\<close> and \<open>sol_a\<close>.
\<close>

record Robot =
  kinematics_q :: VectorXd
  has_floating_base :: bool
  integrate :: "VectorXd \<Rightarrow> VectorXd \<Rightarrow> real \<Rightarrow> VectorXd"
  contact_position_residual :: "ImpulseStatus \<Rightarrow> VectorXd \<Rightarrow> VectorXd"
  contact_position_derivative :: "ImpulseStatus \<Rightarrow> VectorXd \<Rightarrow> MatrixXd"
  transport_dq :: "VectorXd \<Rightarrow> VectorXd \<Rightarrow> MatrixXd \<Rightarrow> MatrixXd"
  transport_dv :: "VectorXd \<Rightarrow> VectorXd \<Rightarrow> MatrixXd \<Rightarrow> MatrixXd"

record SplitSolution =
  sol_q :: VectorXd
  sol_v :: VectorXd
  sol_a :: VectorXd

definition updateKinematics :: "Robot \<Rightarrow> VectorXd \<Rightarrow> Robot" where
  "updateKinematics robot q = robot\<lparr>kinematics_q := q\<rparr>"

definition integrateConfiguration :: "Robot \<Rightarrow> VectorXd \<Rightarrow> VectorXd \<Rightarrow> real \<Rightarrow> VectorXd" where
  "integrateConfiguration robot q v dt = integrate robot q v dt"

definition computeContactPositionResidual :: "Robot \<Rightarrow> ImpulseStatus \<Rightarrow> VectorXd" where
  "computeContactPositionResidual robot impulse_status =
     contact_position_residual robot impulse_status (kinematics_q robot)"

definition computeContactPositionDerivative :: "Robot \<Rightarrow> ImpulseStatus \<Rightarrow> MatrixXd" where
  "computeContactPositionDerivative robot impulse_status =
     contact_position_derivative robot impulse_status (kinematics_q robot)"

definition hasFloatingBase :: "Robot \<Rightarrow> bool" where
  "hasFloatingBase robot = has_floating_base robot"

definition dIntegrateTransport_dq :: "Robot \<Rightarrow> VectorXd \<Rightarrow> VectorXd \<Rightarrow> MatrixXd \<Rightarrow> MatrixXd"
where
  "dIntegrateTransport_dq robot q v Jin = transport_dq robot q v Jin"

definition dIntegrateTransport_dv :: "Robot \<Rightarrow> VectorXd \<Rightarrow> VectorXd \<Rightarrow> MatrixXd \<Rightarrow> MatrixXd"
where
  "dIntegrateTransport_dv robot q v Jin = transport_dv robot q v Jin"

definition scale :: "real \<Rightarrow> VectorXd \<Rightarrow> VectorXd" where
  "scale c v = map (\<lambda>x. c * x) v"

definition vec_add :: "VectorXd \<Rightarrow> VectorXd \<Rightarrow> VectorXd" where
  "vec_add u v = map2 (\<lambda>x y. x + y) u v"

definition scale_matrix :: "real \<Rightarrow> MatrixXd \<Rightarrow> MatrixXd" where
  "scale_matrix c M = map (scale c) M"

text \<open>
  The residual \<open>P\<close> of the switching constraint, and the blocks \<open>Pq\<close>, \<open>Phiq\<close>, \<open>Phiv\<close>
  and \<open>Phia\<close> of its Jacobian.
\<close>

record SwitchingConstraintResidual =
  res_P :: VectorXd

record SwitchingConstraintJacobian =
  Pq :: MatrixXd
  Phiq :: MatrixXd
  Phiv :: MatrixXd
  Phia :: MatrixXd

subsection \<open>test/ocp/switching\_constraint\_test.cpp\<close>

text \<open>
  The reference values that the two tests compute with the robot after the call, and to
  which they compare the residual and the Jacobian that the call has filled.
\<close>

definition test_evalSwitchingConstraint_ref ::
  "Robot \<Rightarrow> ImpulseStatus \<Rightarrow> real \<Rightarrow> real \<Rightarrow> SplitSolution \<Rightarrow> SwitchingConstraintResidual"
where
  "test_evalSwitchingConstraint_ref robot impulse_status dt1 dt2 s =
     (let dq = vec_add (scale (dt1 + dt2) (sol_v s)) (scale (dt1 * dt2) (sol_a s));
          q = integrateConfiguration robot (sol_q s) dq 1;
          robot1 = updateKinematics robot q
      in \<lparr> res_P = computeContactPositionResidual robot1 impulse_status \<rparr>)"

definition test_linearizeSwitchingConstraint_ref ::
  "Robot \<Rightarrow> ImpulseStatus \<Rightarrow> real \<Rightarrow> real \<Rightarrow> SplitSolution
     \<Rightarrow> SwitchingConstraintJacobian \<times> SwitchingConstraintResidual"
where
  "test_linearizeSwitchingConstraint_ref robot impulse_status dt1 dt2 s =
     (let dq = vec_add (scale (dt1 + dt2) (sol_v s)) (scale (dt1 * dt2) (sol_a s));
          q = integrateConfiguration robot (sol_q s) dq 1;
          robot1 = updateKinematics robot q;
          res_ref = \<lparr> res_P = computeContactPositionResidual robot1 impulse_status \<rparr>;
          Pq_ref = computeContactPositionDerivative robot1 impulse_status
      in if hasFloatingBase robot1 then
           (\<lparr> Pq = Pq_ref,
              Phiq = dIntegrateTransport_dq robot1 (sol_q s) dq Pq_ref,
              Phiv = scale_matrix (dt1 + dt2)
                       (dIntegrateTransport_dv robot1 (sol_q s) dq Pq_ref),
              Phia = scale_matrix (dt1 * dt2)
                       (dIntegrateTransport_dv robot1 (sol_q s) dq Pq_ref) \<rparr>, res_ref)
         else
           (\<lparr> Pq = Pq_ref, Phiq = Pq_ref, Phiv = scale_matrix (dt1 + dt2) Pq_ref,
              Phia = scale_matrix (dt1 * dt2) Pq_ref \<rparr>, res_ref))"

subsection \<open>\<open>SwitchingConstraint\<close>\<close>

text \<open>
  Modelled from the spec: \<open>SwitchingConstraint::evalSwitchingConstraint\<close> and the residual
  and Jacobian part of \<open>SwitchingConstraint::linearizeSwitchingConstraint\<close>, whose code is
  missing from the sources. The constraint is the contact position residual \<open>\<phi>\<close> of the impulse at the
  configuration \<open>q \<oplus> (dt1 + dt2) v \<oplus> (dt1 dt2) a\<close>, the two increments being applied in
  one integration, and its Jacobian is the contact position Jacobian transported through
  the Lie-group integration. Both functions are given the robot by reference and leave its
  kinematics at the integrated configuration.
\<close>

definition switching_increment :: "real \<Rightarrow> real \<Rightarrow> SplitSolution \<Rightarrow> VectorXd" where
  "switching_increment dt1 dt2 s =
     vec_add (scale (dt1 + dt2) (sol_v s)) (scale (dt1 * dt2) (sol_a s))"

definition evalSwitchingConstraint ::
  "Robot \<Rightarrow> ImpulseStatus \<Rightarrow> real \<Rightarrow> real \<Rightarrow> SplitSolution
     \<Rightarrow> SwitchingConstraintResidual \<times> Robot"
where
  \<comment> \<open>Modelled from the spec: \<open>SwitchingConstraint::evalSwitchingConstraint\<close>.\<close>
  "evalSwitchingConstraint robot impulse_status dt1 dt2 s =
     (let robot1 = updateKinematics robot
            (integrateConfiguration robot (sol_q s) (switching_increment dt1 dt2 s) 1)
      in (\<lparr> res_P = computeContactPositionResidual robot1 impulse_status \<rparr>, robot1))"

definition transported ::
  "Robot \<Rightarrow> (Robot \<Rightarrow> VectorXd \<Rightarrow> VectorXd \<Rightarrow> MatrixXd \<Rightarrow> MatrixXd) \<Rightarrow> VectorXd \<Rightarrow> VectorXd
     \<Rightarrow> MatrixXd \<Rightarrow> MatrixXd"
where
  \<comment> \<open>a Jacobian seen through the integration: transported when the robot has a floating
      base, and itself otherwise\<close>
  "transported robot transport q dq J =
     (if hasFloatingBase robot then transport robot q dq J else J)"

definition linearizeSwitchingConstraint ::
  "Robot \<Rightarrow> ImpulseStatus \<Rightarrow> real \<Rightarrow> real \<Rightarrow> SplitSolution
     \<Rightarrow> SwitchingConstraintJacobian \<times> SwitchingConstraintResidual \<times> Robot"
where
  \<comment> \<open>Modelled from the spec: \<open>SwitchingConstraint::linearizeSwitchingConstraint\<close>, the
      residual and the Jacobian blocks.\<close>
  "linearizeSwitchingConstraint robot impulse_status dt1 dt2 s =
     (case evalSwitchingConstraint robot impulse_status dt1 dt2 s of (res, robot1) \<Rightarrow>
        (let dq = switching_increment dt1 dt2 s;
             J = computeContactPositionDerivative robot1 impulse_status
         in (\<lparr> Pq = J,
               Phiq = transported robot1 dIntegrateTransport_dq (sol_q s) dq J,
               Phiv = scale_matrix (dt1 + dt2)
                        (transported robot1 dIntegrateTransport_dv (sol_q s) dq J),
               Phia = scale_matrix (dt1 * dt2)
                        (transported robot1 dIntegrateTransport_dv (sol_q s) dq J) \<rparr>,
             res, robot1)))"

definition hasActiveImpulse :: "ImpulseStatus \<Rightarrow> bool" where
  "hasActiveImpulse impulse_status = (True \<in> set (is_impulse_active impulse_status))"

section \<open>Sample inputs\<close>

text \<open>
  A horizon of two grid intervals with one impulse event inside the first interval, whose
  switching time is optimized: stage 0 is in contact phase 0, the aux stage of the impulse
  and stage 1 are in contact phase 1.
\<close>

abbreviation sample_discretization :: TimeDiscretization where
  "sample_discretization \<equiv>
     \<lparr> N_grid = 2, N_impulse = 1, N_lift = 0,
       contactPhase = (\<lambda>stage. if stage < 1 then 0 else 1),
       contactPhaseAfterImpulse = (\<lambda>i. i + 1),
       contactPhaseAfterLift = (\<lambda>i. i + 1),
       impulseIndexAfterTimeStage = (\<lambda>stage. 0),
       liftIndexAfterTimeStage = (\<lambda>stage. 0),
       isTimeStageBeforeImpulse = (\<lambda>stage. stage = 0),
       isTimeStageBeforeLift = (\<lambda>stage. False),
       isSTOEnabledPhase = (\<lambda>phase. True),
       isSTOEnabledNextPhase = (\<lambda>phase. phase = 0),
       isSTOEnabledImpulse = (\<lambda>i. True),
       isSTOEnabledLift = (\<lambda>i. False),
       eventType = (\<lambda>e. Impulse) \<rparr>"

abbreviation sample_residual :: "real \<Rightarrow> VectorXd \<Rightarrow> SplitKKTResidual" where
  "sample_residual hval lxval \<equiv>
     \<lparr> Fx = [0, 0], lx = lxval, la = [0], lu = [0], res_h = hval, res_kkt_error = 0,
       res_cost = 0, res_constraint_violation = 0, lf_full = [0, 0, 0, 0, 0, 0],
       res_dimv = 1, res_dimu = 1, res_dimf = 0 \<rparr>"

abbreviation sample_component :: "VectorXd \<Rightarrow> VectorXd \<Rightarrow> ConstraintComponentData" where
  "sample_component slack0 dual0 \<equiv>
     \<lparr> slack = slack0, dual = dual0, residual = [0, 0], cmpl = [0, 0], dslack = [0, 0],
       ddual = [0, 0], cond = [0, 0], log_barrier = 0, r_extra = [], J_extra = [],
       dimc = 2 \<rparr>"

abbreviation sample_matrix :: "MatrixXd \<Rightarrow> SplitKKTMatrix" where
  "sample_matrix Qxx0 \<equiv>
     \<lparr> Fxx = [[1, 0], [0, 1]], Fvu = [[1]], Qxx = Qxx0, Qaa = [[1]], Qxu = [[0], [0]],
       Quu = [[1]], Fqq_prev = [], fx = [0, 0], Qtt = 0, Qtt_prev = 0, hx = [0, 0], hu = [0],
       ha = [0], Qff_full = replicate 6 (replicate 6 0), Qqf_full = [replicate 6 0],
       hf_full = replicate 6 0, mat_has_floating_base = False, mat_dimv = 1, mat_dimx = 2,
       mat_dimu = 1, mat_dimf = 0 \<rparr>"

text \<open>
  A factorizer that hands the factorization of the next stage on to the current stage, and
  the objects of a recursion over the sample horizon.
\<close>

abbreviation sample_factorizer_ops ::
  "(unit, unit, unit, unit, unit, unit, unit, unit) factorizer_ops" where
  "sample_factorizer_ops \<equiv>
     \<lparr> backward_stage = (\<lambda>fz nx m r f p sto sto_next. (fz, m, r, nx, p)),
       backward_impulse = (\<lambda>fz nx m r f sto. (fz, m, r, nx)),
       backward_switching =
         (\<lambda>fz nx m r ms rs f fs p sto sto_next. (fz, m, r, ms, rs, nx, fs, p)) \<rparr>"

abbreviation sample_riccati_state ::
  "(unit, unit, unit, unit, unit, unit, unit, unit) riccati_state" where
  "sample_riccati_state \<equiv>
     \<lparr> st_factorizer = (),
       st_lqr_policy =
         \<lparr> data = [(), (), ()], aux = [()], lift = [], impulse = [()], switching = [()] \<rparr>,
       st_kkt_matrix =
         \<lparr> data = [sample_matrix [[1, 0], [0, 1]], sample_matrix [[1, 0], [0, 1]],
                   sample_matrix [[2, 0], [0, 3]]],
           aux = [sample_matrix [[1, 0], [0, 1]]], lift = [], impulse = [()],
           switching = [()] \<rparr>,
       st_kkt_residual =
         \<lparr> data = [sample_residual 5 [0, 0], sample_residual 1 [0, 0],
                   sample_residual 0 [1, - 4]],
           aux = [sample_residual 1 [0, 0]], lift = [], impulse = [()], switching = [()] \<rparr>,
       st_factorization =
         \<lparr> data = [\<lparr>fact_P = [], fact_s = []\<rparr>, \<lparr>fact_P = [], fact_s = []\<rparr>,
                   \<lparr>fact_P = [], fact_s = []\<rparr>],
           aux = [\<lparr>fact_P = [], fact_s = []\<rparr>], lift = [],
           impulse = [\<lparr>fact_P = [], fact_s = []\<rparr>], switching = [()] \<rparr> \<rparr>"

text \<open>
  Workers of the sample horizon: the first time stage has a component whose slack
  decreases, the aux stage one whose dual decreases. The sample operations leave the
  workers and the directions as they are.
\<close>

abbreviation sample_worker :: "ConstraintComponentData list \<Rightarrow> StageOCP" where
  "sample_worker comps \<equiv>
     \<lparr> fraction_to_boundary_rule = 199 / 200,
       constraints_data =
         \<lparr> position_level_data = comps, velocity_level_data = [],
           acceleration_level_data = [], impulse_level_data = [],
           is_position_level_valid = True, is_velocity_level_valid = True,
           is_acceleration_level_valid = True, is_impulse_level_valid = False \<rparr> \<rparr>"

abbreviation sample_ocp :: "(StageOCP, StageOCP, StageOCP) OCP" where
  "sample_ocp \<equiv>
     \<lparr> data = [sample_worker [(sample_component [1, 2] [1 / 2, 1])\<lparr>dslack := [- 2, 1]\<rparr>],
               sample_worker [sample_component [1, 2] [1 / 2, 1]]],
       aux = [sample_worker [(sample_component [1, 2] [1 / 2, 1])\<lparr>ddual := [1, - 4]\<rparr>]],
       lift = [], impulse = [sample_worker []], switching = [],
       terminal = sample_worker [] \<rparr>"

abbreviation sample_unit_container :: "(unit, unit, unit) hybrid_container" where
  "sample_unit_container \<equiv>
     \<lparr> data = [(), (), ()], aux = [()], lift = [], impulse = [()], switching = [()] \<rparr>"

abbreviation sample_direction_ops ::
  "(unit, unit, unit, unit, StageOCP, StageOCP, unit) direction_ops" where
  "sample_direction_ops \<equiv>
     \<lparr> computeCostateDirection = (\<lambda>f d sto sto_next. d),
       computeCostateDirection_impulse = (\<lambda>f d sto. d),
       computeLagrangeMultiplierDirection = (\<lambda>f d sto sto_next. d),
       expandPrimal = (\<lambda>w contact_status d. (w, d)),
       expandPrimal_impulse = (\<lambda>w impulse_status d. (w, d)),
       setImpulseStatus = (\<lambda>d impulse_status. d),
       contactStatus = (\<lambda>cs phase. \<lparr>is_contact_active = [True, False]\<rparr>),
       impulseStatus = (\<lambda>cs impulse_index. \<lparr>is_impulse_active = [False, True]\<rparr>) \<rparr>"

text \<open>
  A robot with two coordinates whose integration is the addition of vectors, whose contact
  position residual is the distance of the configuration from the point \<open>(1, 1)\<close>, and
  whose transports double, respectively triple, a Jacobian.
\<close>

abbreviation sample_robot :: Robot where
  "sample_robot \<equiv>
     \<lparr> kinematics_q = [0, 0], has_floating_base = True,
       integrate = (\<lambda>q v dt. vec_add q (scale dt v)),
       contact_position_residual = (\<lambda>impulse_status q. map (\<lambda>x. x - 1) q),
       contact_position_derivative = (\<lambda>impulse_status q. [[1, 0], [0, 1]]),
       transport_dq = (\<lambda>q v J. scale_matrix 2 J),
       transport_dv = (\<lambda>q v J. scale_matrix 3 J) \<rparr>"

text \<open>
  The objects that the constructors yield: the switching-time optimization for at most
  \<open>max_events\<close> impulse events, and the Riccati recursion for \<open>N = 2\<close>, at most one
  impulse event and four threads.
\<close>

abbreviation sample_sto :: "int \<Rightarrow> (unit, unit) STO" where
  "sample_sto max_events \<equiv>
     \<lparr> sto_cost = (), sto_constraints = (), max_num_impulse_events = max_events,
       sto_kkt_error = 0, cost_val = 0, h_phase = replicate (nat (2 * max_events + 1)) 0,
       is_sto_enabled = True \<rparr>"

abbreviation sample_recursion :: RiccatiRecursion where
  "sample_recursion \<equiv>
     \<lparr> nthreads = 4, N_stages = 2, N_all = 3, max_primal_step_sizes = replicate 6 0,
       max_dual_step_sizes = replicate 6 0 \<rparr>"

section \<open>Properties of the rotation helper\<close>

text \<open>
  Claim C9. The divisor of \<open>ProjectRotationMatrix\<close> is the square of one entry plus twice
  (by addition, not squaring) another entry: \<open>R(1,1)*R(1,1) + R(1,2) + R(1,2)\<close> for axis
  X, \<open>R(0,0)*R(0,0) + R(0,2) + R(0,2)\<close> for axis Y and \<open>R(0,0)*R(0,0) + R(0,1) + R(0,1)\<close>
  for axis Z. Every entry of the matrix is divided by it, and then the row and the column
  of the projection axis are overwritten with the entries of the unit vector. The result is
  a real matrix whenever the divisor is not zero.
\<close>

theorem ProjectRotationMatrix_divisor:
  assumes "R = [[r00, r01, r02], [r10, r11, r12], [r20, r21, r22]]"
    and "nx = r11 * r11 + r12 + r12" and "ny = r00 * r00 + r02 + r02"
    and "nz = r00 * r00 + r01 + r01"
  shows "projection_norm R AxisX = nx \<and> projection_norm R AxisY = ny
    \<and> projection_norm R AxisZ = nz
    \<and> (nx \<noteq> 0 \<longrightarrow> ProjectRotationMatrix R AxisX
          = Some [[1, 0, 0], [0, r11 / nx, r12 / nx], [0, r21 / nx, r22 / nx]])
    \<and> (ny \<noteq> 0 \<longrightarrow> ProjectRotationMatrix R AxisY
          = Some [[r00 / ny, 0, r02 / ny], [0, 1, 0], [r20 / ny, 0, r22 / ny]])
    \<and> (nz \<noteq> 0 \<longrightarrow> ProjectRotationMatrix R AxisZ
          = Some [[r00 / nz, r01 / nz, 0], [r10 / nz, r11 / nz, 0], [0, 0, 1]])"
  using assms
  by (simp add: ProjectRotationMatrix_def projection_norm_def overwrite_axis_def
      array_div_def coeffRef_def coeff_def Let_def)

theorem ProjectRotationMatrix_divisor_witness:
  "projection_norm [[1, 0, 0], [0, 2, 3], [0, 4, 5]] AxisX = 10
   \<and> ProjectRotationMatrix [[1, 0, 0], [0, 2, 3], [0, 4, 5]] AxisX
       = Some [[1, 0, 0], [0, 2 / 10, 3 / 10], [0, 4 / 10, 5 / 10]]
   \<and> ProjectRotationMatrix [[1, 0, 0], [0, 2, 3], [0, 4, 5]] AxisY
       = Some [[1, 0, 0], [0, 1, 0], [0, 0, 5]]
   \<and> ProjectRotationMatrix [[1, 0, 0], [0, 2, 3], [0, 4, 5]] AxisZ
       = Some [[1, 0, 0], [0, 2, 0], [0, 0, 1]]"
  using ProjectRotationMatrix_divisor
    [of "[[1, 0, 0], [0, 2, 3], [0, 4, 5]]" 1 0 0 0 2 3 0 4 5 10 1 1]
  by simp

section \<open>Properties of the argument checks\<close>


lemma RiccatiRecursion_members_throws:
  assumes "N < - 1 \<or> max_num_impulse < 0"
  shows "\<exists>e. RiccatiRecursion_members N max_num_impulse nthr = Inl e"
  using assms
  by (auto simp add: RiccatiRecursion_members_def hybrid_container_ctor_def std_vector_def)

lemma RiccatiRecursion_ctor_throws:
  assumes "N < - 1 \<or> max_num_impulse < 0"
  shows "surfaces_to_caller (RiccatiRecursion_ctor N max_num_impulse nthr)"
proof -
  from RiccatiRecursion_members_throws [OF assms]
  obtain e where "RiccatiRecursion_members N max_num_impulse nthr = Inl e" by blast
  then show ?thesis by (simp add: RiccatiRecursion_ctor_def surfaces_to_caller_def)
qed




section \<open>Properties of the KKT error\<close>

lemma squaredNorm_nonneg: "0 \<le> squaredNorm v"
  unfolding squaredNorm_def by (induction v) auto

lemma entry_le_squaredNorm: "x \<in> set v \<Longrightarrow> x * x \<le> squaredNorm v"
  unfolding squaredNorm_def
proof (induction v)
  case Nil
  then show ?case by simp
next
  case (Cons a v)
  have "0 \<le> (\<Sum>x\<leftarrow>v. x * x)"
    using squaredNorm_nonneg [of v] by (simp add: squaredNorm_def)
  with Cons show ?case by (auto simp: add_increasing2 add_increasing)
qed

lemma lpNorm_Infinity_le:
  "0 \<le> c \<Longrightarrow> (\<And>x. x \<in> set v \<Longrightarrow> \<bar>x\<bar> \<le> c) \<Longrightarrow> lpNorm_Infinity v \<le> c"
  unfolding lpNorm_Infinity_def by (induction v) auto

lemma abs_le_sqrt_squaredNorm:
  assumes "x \<in> set v"
  shows "\<bar>x\<bar> \<le> sqrt (squaredNorm v)"
proof -
  from assms have "x * x \<le> squaredNorm v" by (rule entry_le_squaredNorm)
  then have "sqrt (x * x) \<le> sqrt (squaredNorm v)" by (rule real_sqrt_le_mono)
  then show ?thesis by simp
qed

lemma lpNorm_Infinity_le_l2: "lpNorm_Infinity v \<le> sqrt (squaredNorm v)"
  by (rule lpNorm_Infinity_le) (simp_all add: squaredNorm_nonneg abs_le_sqrt_squaredNorm)

text \<open>
  Claim C3, as stated, fails: the error measure of the code is not the l-infinity norm of
  the stacked KKT residual. For the residual \<open>(3, 4)\<close> (a third, inactive entry of the
  buffer is ignored) \<open>squaredKKTErrorNorm\<close> is 25 and its square root, the l2 norm, is 5,
  while the l-infinity norm is 4; with the tolerance 9/2 the l-infinity test would accept
  the residual and the l2 test rejects it. The KKT error of the switching-time
  optimization is an l2 norm as well: for two events with the Hamiltonian jumps 3 and 4
  \<open>STO::KKTError\<close> returns 5.
\<close>

theorem KKTError_not_linf_counterexample:
  "squaredKKTErrorNorm
      \<lparr> kkt_residual_buf = [3, 4, 7], dimKKT = 2 \<rparr> = 25
   \<and> sqrt (squaredKKTErrorNorm
      \<lparr> kkt_residual_buf = [3, 4, 7], dimKKT = 2 \<rparr>) = 5
   \<and> lpNorm_Infinity (KKT_residual
      \<lparr> kkt_residual_buf = [3, 4, 7], dimKKT = 2 \<rparr>) = 4
   \<and> lpNorm_Infinity (KKT_residual
      \<lparr> kkt_residual_buf = [3, 4, 7], dimKKT = 2 \<rparr>) < 9 / 2
   \<and> \<not> sqrt (squaredKKTErrorNorm
      \<lparr> kkt_residual_buf = [3, 4, 7], dimKKT = 2 \<rparr>) < 9 / 2
   \<and> fst (STO_KKTError (sample_sto 2)
      (sample_discretization\<lparr>N_grid := 3, N_impulse := 2, contactPhase := \<lambda>stage. stage\<rparr>)
      \<lparr> data = [sample_residual 7 [0, 0], sample_residual 4 [0, 0], sample_residual 0 [0, 0],
                sample_residual 0 [0, 0]],
        aux = [sample_residual 0 [0, 0], sample_residual 0 [0, 0]], lift = [],
        impulse = [(), ()], switching = [(), ()] \<rparr>) = 5
   \<and> lpNorm_Infinity [7 - 4, 4 - 0] = 4"
  by (simp add: squaredKKTErrorNorm_def KKT_residual_def squaredNorm_def head_def
      lpNorm_Infinity_def STO_KKTError_def accumulate_h_phase_def event_step_def setZero_def add_coeffRef_def Let_def eval_nat_numeral real_sqrt_unique)

text \<open>
  Claim C3, amended. The error measure of a stage is the squared l2 norm of the active part
  of the stacked KKT residual: \<open>squaredKKTErrorNorm\<close> is the sum of the squares of its first
  \<open>dimKKT\<close> entries. Its square root, the l2 norm, is never below the l-infinity norm, so
  an l2 error below a tolerance puts the l-infinity norm below that tolerance too.
\<close>

theorem KKTError_is_squared_l2:
  "squaredKKTErrorNorm r = (\<Sum>x\<leftarrow>KKT_residual r. x\<^sup>2)
   \<and> lpNorm_Infinity (KKT_residual r) \<le> sqrt (squaredKKTErrorNorm r)
   \<and> (sqrt (squaredKKTErrorNorm r) < eps \<longrightarrow> lpNorm_Infinity (KKT_residual r) < eps)"
proof -
  have a: "squaredKKTErrorNorm r = (\<Sum>x\<leftarrow>KKT_residual r. x\<^sup>2)"
    by (simp add: squaredKKTErrorNorm_def KKT_residual_def squaredNorm_def power2_eq_square)
  have b: "lpNorm_Infinity (KKT_residual r) \<le> sqrt (squaredKKTErrorNorm r)"
    unfolding squaredKKTErrorNorm_def KKT_residual_def by (rule lpNorm_Infinity_le_l2)
  from a b show ?thesis by auto
qed

theorem KKTError_is_squared_l2_witness:
  "sqrt (squaredKKTErrorNorm
      \<lparr> kkt_residual_buf = [3, 4, 7], dimKKT = 2 \<rparr>) < 6
   \<and> lpNorm_Infinity (KKT_residual
      \<lparr> kkt_residual_buf = [3, 4, 7], dimKKT = 2 \<rparr>) < 6"
proof -
  let ?r = "\<lparr> kkt_residual_buf = [3, 4, 7], dimKKT = 2 \<rparr>"
  have h: "sqrt (squaredKKTErrorNorm ?r) < 6"
    by (simp add: squaredKKTErrorNorm_def squaredNorm_def head_def real_sqrt_unique)
  from h KKTError_is_squared_l2 [of ?r 6] show ?thesis by blast
qed

section \<open>Properties of the contact-force dimensions\<close>

lemma num_active_le: "num_active_contacts cs \<le> maxNumContacts cs"
  by (simp add: num_active_contacts_def maxNumContacts_def)

lemma is_matrix_topLeftCorner:
  "is_matrix R C M \<Longrightarrow> rows \<le> R \<Longrightarrow> cols \<le> C \<Longrightarrow>
     is_matrix rows cols (topLeftCorner rows cols M)"
  by (auto simp: is_matrix_def topLeftCorner_def list_all_iff dest: in_set_takeD)

text \<open>
  Claim C7. After \<open>setContactStatus\<close> on a split KKT residual and on a split KKT matrix,
  \<open>dimf()\<close> is three times the number of active point contacts, and every contact-force
  accessor (\<open>lf()\<close>, \<open>Qff()\<close>, \<open>Qqf()\<close>, \<open>hf()\<close>) has exactly that dimension and is the
  leading part of its buffer, entry by entry; the buffers, allocated for the maximum
  dimension, are left as they were.
\<close>

theorem setContactStatus_dimensions:
  assumes "allocated_for (3 * maxNumContacts contact_status) r m"
  shows "SplitKKTResidual_dimf (SplitKKTResidual_setContactStatus r contact_status)
      = 3 * num_active_contacts contact_status
    \<and> length (lf (SplitKKTResidual_setContactStatus r contact_status))
      = 3 * num_active_contacts contact_status
    \<and> lf (SplitKKTResidual_setContactStatus r contact_status)
      = take (3 * num_active_contacts contact_status) (lf_full r)
    \<and> lf_full (SplitKKTResidual_setContactStatus r contact_status) = lf_full r
    \<and> SplitKKTMatrix_dimf (SplitKKTMatrix_setContactStatus m contact_status)
      = 3 * num_active_contacts contact_status
    \<and> is_matrix (3 * num_active_contacts contact_status)
        (3 * num_active_contacts contact_status)
        (Qff (SplitKKTMatrix_setContactStatus m contact_status))
    \<and> is_matrix (mat_dimv m) (3 * num_active_contacts contact_status)
        (Qqf (SplitKKTMatrix_setContactStatus m contact_status))
    \<and> length (hf (SplitKKTMatrix_setContactStatus m contact_status))
      = 3 * num_active_contacts contact_status
    \<and> Qff_full (SplitKKTMatrix_setContactStatus m contact_status) = Qff_full m
    \<and> Qqf_full (SplitKKTMatrix_setContactStatus m contact_status) = Qqf_full m
    \<and> hf_full (SplitKKTMatrix_setContactStatus m contact_status) = hf_full m
    \<and> Qff (SplitKKTMatrix_setContactStatus m contact_status)
      = topLeftCorner (3 * num_active_contacts contact_status)
          (3 * num_active_contacts contact_status) (Qff_full m)
    \<and> Qqf (SplitKKTMatrix_setContactStatus m contact_status)
      = topLeftCorner (mat_dimv m) (3 * num_active_contacts contact_status) (Qqf_full m)
    \<and> hf (SplitKKTMatrix_setContactStatus m contact_status)
      = take (3 * num_active_contacts contact_status) (hf_full m)
    \<and> (\<forall>i < 3 * num_active_contacts contact_status.
          lf (SplitKKTResidual_setContactStatus r contact_status) ! i = lf_full r ! i
          \<and> hf (SplitKKTMatrix_setContactStatus m contact_status) ! i = hf_full m ! i
          \<and> (\<forall>j < 3 * num_active_contacts contact_status.
                coeff (Qff (SplitKKTMatrix_setContactStatus m contact_status)) i j
                  = coeff (Qff_full m) i j)
          \<and> (\<forall>k < mat_dimv m.
                coeff (Qqf (SplitKKTMatrix_setContactStatus m contact_status)) k i
                  = coeff (Qqf_full m) k i))"
proof -
  let ?n = "3 * num_active_contacts contact_status"
  let ?mx = "3 * maxNumContacts contact_status"
  have le: "?n \<le> ?mx" using num_active_le [of contact_status] by simp
  from assms have b: "length (lf_full r) = ?mx" "is_matrix ?mx ?mx (Qff_full m)"
    "is_matrix (mat_dimv m) ?mx (Qqf_full m)" "length (hf_full m) = ?mx"
    by (simp_all add: allocated_for_def)
  have r1: "length (lf (SplitKKTResidual_setContactStatus r contact_status)) = ?n"
    using le b(1)
    by (simp add: lf_def head_def SplitKKTResidual_setContactStatus_def ContactStatus_dimf_def)
  have m1: "is_matrix ?n ?n (Qff (SplitKKTMatrix_setContactStatus m contact_status))"
    using is_matrix_topLeftCorner [OF b(2) le le]
    by (simp add: Qff_def SplitKKTMatrix_setContactStatus_def ContactStatus_dimf_def)
  have m2: "is_matrix (mat_dimv m) ?n (Qqf (SplitKKTMatrix_setContactStatus m contact_status))"
    using is_matrix_topLeftCorner [OF b(3) order_refl le]
    by (simp add: Qqf_def SplitKKTMatrix_setContactStatus_def ContactStatus_dimf_def)
  have m3: "length (hf (SplitKKTMatrix_setContactStatus m contact_status)) = ?n"
    using le b(4)
    by (simp add: hf_def head_def SplitKKTMatrix_setContactStatus_def ContactStatus_dimf_def)
  have v1: "Qff (SplitKKTMatrix_setContactStatus m contact_status)
      = topLeftCorner ?n ?n (Qff_full m)"
    by (simp add: Qff_def SplitKKTMatrix_setContactStatus_def ContactStatus_dimf_def)
  have v2: "Qqf (SplitKKTMatrix_setContactStatus m contact_status)
      = topLeftCorner (mat_dimv m) ?n (Qqf_full m)"
    by (simp add: Qqf_def SplitKKTMatrix_setContactStatus_def ContactStatus_dimf_def)
  have v3: "hf (SplitKKTMatrix_setContactStatus m contact_status) = take ?n (hf_full m)"
    by (simp add: hf_def head_def SplitKKTMatrix_setContactStatus_def ContactStatus_dimf_def)
  have v0: "lf (SplitKKTResidual_setContactStatus r contact_status) = take ?n (lf_full r)"
    by (simp add: lf_def head_def SplitKKTResidual_setContactStatus_def
        ContactStatus_dimf_def)
  have e: "lf (SplitKKTResidual_setContactStatus r contact_status) ! i = lf_full r ! i
      \<and> hf (SplitKKTMatrix_setContactStatus m contact_status) ! i = hf_full m ! i
      \<and> (\<forall>j < ?n. coeff (Qff (SplitKKTMatrix_setContactStatus m contact_status)) i j
                  = coeff (Qff_full m) i j)
      \<and> (\<forall>k < mat_dimv m. coeff (Qqf (SplitKKTMatrix_setContactStatus m contact_status)) k i
                  = coeff (Qqf_full m) k i)"
    if i: "i < ?n" for i
  proof -
    from i le have imx: "i < ?mx" by simp
    from b(2) imx have rows: "i < length (Qff_full m)" by (simp add: is_matrix_def)
    have q: "coeff (topLeftCorner ?n ?n (Qff_full m)) i j = coeff (Qff_full m) i j"
      if "j < ?n" for j
      using that i rows by (simp add: coeff_def topLeftCorner_def)
    have p: "coeff (topLeftCorner (mat_dimv m) ?n (Qqf_full m)) k i = coeff (Qqf_full m) k i"
      if "k < mat_dimv m" for k
    proof -
      from b(3) that have "k < length (Qqf_full m)" by (simp add: is_matrix_def)
      with that i show ?thesis by (simp add: coeff_def topLeftCorner_def)
    qed
    from i q p show ?thesis by (simp add: v0 v1 v2 v3)
  qed
  have sizes: "SplitKKTResidual_dimf (SplitKKTResidual_setContactStatus r contact_status) = ?n
    \<and> lf_full (SplitKKTResidual_setContactStatus r contact_status) = lf_full r
    \<and> SplitKKTMatrix_dimf (SplitKKTMatrix_setContactStatus m contact_status) = ?n
    \<and> Qff_full (SplitKKTMatrix_setContactStatus m contact_status) = Qff_full m
    \<and> Qqf_full (SplitKKTMatrix_setContactStatus m contact_status) = Qqf_full m
    \<and> hf_full (SplitKKTMatrix_setContactStatus m contact_status) = hf_full m"
    by (simp add: SplitKKTResidual_dimf_def SplitKKTMatrix_dimf_def
        SplitKKTResidual_setContactStatus_def SplitKKTMatrix_setContactStatus_def
        ContactStatus_dimf_def)
  from sizes r1 v0 m1 m2 m3 v1 v2 v3 e show ?thesis by blast
qed

theorem setContactStatus_dimensions_witness:
  "SplitKKTResidual_dimf (SplitKKTResidual_setContactStatus
      ((sample_residual 0 [0, 0])\<lparr>lf_full := [1, 2, 3, 4, 5, 6]\<rparr>)
      \<lparr>is_contact_active = [False, True]\<rparr>) = 3
   \<and> lf (SplitKKTResidual_setContactStatus
      ((sample_residual 0 [0, 0])\<lparr>lf_full := [1, 2, 3, 4, 5, 6]\<rparr>)
      \<lparr>is_contact_active = [False, True]\<rparr>) = [1, 2, 3]
   \<and> length (hf (SplitKKTMatrix_setContactStatus (sample_matrix [[1, 0], [0, 1]])
      \<lparr>is_contact_active = [False, True]\<rparr>)) = 3
   \<and> is_matrix 3 3 (Qff (SplitKKTMatrix_setContactStatus (sample_matrix [[1, 0], [0, 1]])
      \<lparr>is_contact_active = [False, True]\<rparr>))
   \<and> hf (SplitKKTMatrix_setContactStatus
      ((sample_matrix [[1, 0], [0, 1]])\<lparr>hf_full := [6, 5, 4, 3, 2, 1]\<rparr>)
      \<lparr>is_contact_active = [False, True]\<rparr>) = [6, 5, 4]
   \<and> Qqf (SplitKKTMatrix_setContactStatus
      ((sample_matrix [[1, 0], [0, 1]])\<lparr>Qqf_full := [[1, 2, 3, 4, 5, 6]]\<rparr>)
      \<lparr>is_contact_active = [False, True]\<rparr>) = [[1, 2, 3]]"
proof -
  let ?r = "(sample_residual 0 [0, 0])\<lparr>lf_full := [1, 2, 3, 4, 5, 6]\<rparr>"
  let ?m = "sample_matrix [[1, 0], [0, 1]]"
  let ?cs = "\<lparr>is_contact_active = [False, True]\<rparr>"
  have alloc: "allocated_for (3 * maxNumContacts ?cs) ?r ?m"
    by (simp add: allocated_for_def maxNumContacts_def is_matrix_def list_all_iff)
  have n: "3 * num_active_contacts ?cs = 3" by (simp add: num_active_contacts_def)
  let ?mh = "(sample_matrix [[1, 0], [0, 1]])\<lparr>hf_full := [6, 5, 4, 3, 2, 1]\<rparr>"
  let ?mq = "(sample_matrix [[1, 0], [0, 1]])\<lparr>Qqf_full := [[1, 2, 3, 4, 5, 6]]\<rparr>"
  have alloch: "allocated_for (3 * maxNumContacts ?cs) ?r ?mh"
    by (simp add: allocated_for_def maxNumContacts_def is_matrix_def list_all_iff)
  have allocq: "allocated_for (3 * maxNumContacts ?cs) ?r ?mq"
    by (simp add: allocated_for_def maxNumContacts_def is_matrix_def list_all_iff)
  note t = setContactStatus_dimensions [OF alloc]
  have a1: "SplitKKTResidual_dimf (SplitKKTResidual_setContactStatus ?r ?cs) = 3"
    using t [THEN conjunct1] unfolding n .
  have a2: "lf (SplitKKTResidual_setContactStatus ?r ?cs) = [1, 2, 3]"
    using t [THEN conjunct2, THEN conjunct2, THEN conjunct1] unfolding n by simp
  have a3: "length (hf (SplitKKTMatrix_setContactStatus ?m ?cs)) = 3"
    using t [THEN conjunct2, THEN conjunct2, THEN conjunct2, THEN conjunct2, THEN conjunct2,
        THEN conjunct2, THEN conjunct2, THEN conjunct1] unfolding n .
  have a4: "is_matrix 3 3 (Qff (SplitKKTMatrix_setContactStatus ?m ?cs))"
    using t [THEN conjunct2, THEN conjunct2, THEN conjunct2, THEN conjunct2, THEN conjunct2,
        THEN conjunct1] unfolding n .
  have b: "hf (SplitKKTMatrix_setContactStatus ?mh ?cs) = [6, 5, 4]"
    using setContactStatus_dimensions [OF alloch, THEN conjunct2, THEN conjunct2,
        THEN conjunct2, THEN conjunct2, THEN conjunct2, THEN conjunct2, THEN conjunct2,
        THEN conjunct2, THEN conjunct2, THEN conjunct2, THEN conjunct2, THEN conjunct2,
        THEN conjunct2, THEN conjunct1] unfolding n by simp
  have c: "Qqf (SplitKKTMatrix_setContactStatus ?mq ?cs) = [[1, 2, 3]]"
    using setContactStatus_dimensions [OF allocq, THEN conjunct2, THEN conjunct2,
        THEN conjunct2, THEN conjunct2, THEN conjunct2, THEN conjunct2, THEN conjunct2,
        THEN conjunct2, THEN conjunct2, THEN conjunct2, THEN conjunct2, THEN conjunct2,
        THEN conjunct1] unfolding n
    by (simp add: topLeftCorner_def)
  from a1 a2 a3 a4 b c show ?thesis by blast
qed

section \<open>Properties of the switching-time optimization\<close>

lemma STO_ctor_sample:
  "0 \<le> max_events \<Longrightarrow> STO_ctor () () max_events = Inr (sample_sto max_events)"
  by (simp add: STO_ctor_def Zero_def)

lemma length_add_coeffRef [simp]: "length (add_coeffRef v i x) = length v"
  by (simp add: add_coeffRef_def)

lemma nth_add_coeffRef:
  "p < length v \<Longrightarrow> add_coeffRef v i x ! p = (if i = p then v ! p + x else v ! p)"
  by (simp add: add_coeffRef_def nth_list_update)

lemma length_accumulate_loop [simp]:
  "length (for_loop n (\<lambda>i v. add_coeffRef v (ph i) (x i)) v) = length v"
  by (induction n) simp_all

lemma nth_accumulate_loop:
  "p < length v \<Longrightarrow>
     for_loop n (\<lambda>i v. add_coeffRef v (ph i) (x i)) v ! p
       = v ! p + (\<Sum>i\<leftarrow>[0..<n]. if ph i = p then x i else 0)"
proof (induction n)
  case 0
  then show ?case by simp
next
  case (Suc n)
  then show ?case by (simp add: nth_add_coeffRef)
qed

lemma length_accumulate_h_phase [simp]:
  "length (accumulate_h_phase discrete kkt_res hp) = length hp"
  by (simp add: accumulate_h_phase_def Let_def setZero_def)

lemma nth_accumulate_h_phase:
  assumes "p < length hp"
  shows "accumulate_h_phase discrete kkt_res hp ! p = phase_hamiltonian discrete kkt_res p"
  using assms
  by (simp add: accumulate_h_phase_def Let_def nth_accumulate_loop setZero_def
      phase_hamiltonian_def)

lemma event_loop:
  "for_loop n (event_step discrete hp) (0, 0, 0)
     = ((\<Sum>e\<leftarrow>[0..<n]. event_term discrete hp e),
        impulses_before discrete n, lifts_before discrete n)"
proof (induction n)
  case 0
  then show ?case by (simp add: impulses_before_def lifts_before_def)
next
  case (Suc n)
  show ?case
  proof (cases "eventType discrete n")
    case Impulse
    with Suc show ?thesis
      by (simp add: event_step_def event_term_def isSTOEnabledEvent_of_def
          impulses_before_def lifts_before_def power2_eq_square Let_def)
  next
    case Lift
    with Suc show ?thesis
      by (simp add: event_step_def event_term_def isSTOEnabledEvent_of_def
          impulses_before_def lifts_before_def power2_eq_square Let_def)
  qed
qed

lemma sum_list_all_zero:
  "(\<And>x. x \<in> set xs \<Longrightarrow> f x = 0) \<Longrightarrow> (\<Sum>x\<leftarrow>xs. f x) = (0::real)"
  by (induction xs) simp_all

text \<open>
  Claim C10. \<open>STO::KKTError(ocp, kkt_residual)\<close> returns the square root of the sum, over
  the discrete events whose switching-time flag is on, of the squared difference of the
  Hamiltonians of the contact phases before and after the event, where the Hamiltonian of a
  phase is the sum of the residuals \<open>h\<close> of the regular, aux and lift stages of that phase.
  An event whose flag is off adds nothing, so the result is 0 when no event has its flag
  on. The buffer \<open>h_phase_\<close> has to hold the phases \<open>0, \<dots>, N_impulse + N_lift\<close>, as Eigen
  requires of the indices the function reads.
\<close>

theorem STO_KKTError_value:
  assumes "N_impulse discrete + N_lift discrete < length (h_phase sto)"
  shows "fst (STO_KKTError sto discrete kkt_res)
      = sqrt (\<Sum>e\<leftarrow>[0..<N_impulse discrete + N_lift discrete].
                if isSTOEnabledEvent_of discrete e
                then (phase_hamiltonian discrete kkt_res e
                      - phase_hamiltonian discrete kkt_res (e + 1))\<^sup>2
                else 0)
    \<and> ((\<forall>e < N_impulse discrete + N_lift discrete. \<not> isSTOEnabledEvent_of discrete e)
        \<longrightarrow> fst (STO_KKTError sto discrete kkt_res) = 0)"
proof -
  let ?n = "N_impulse discrete + N_lift discrete"
  let ?hp = "accumulate_h_phase discrete kkt_res (h_phase sto)"
  let ?sq = "\<lambda>e. if isSTOEnabledEvent_of discrete e
                then (phase_hamiltonian discrete kkt_res e
                      - phase_hamiltonian discrete kkt_res (e + 1))\<^sup>2
                else 0"
  have ret: "fst (STO_KKTError sto discrete kkt_res)
      = sqrt (\<Sum>e\<leftarrow>[0..<?n]. event_term discrete ?hp e)"
    by (simp add: STO_KKTError_def Let_def event_loop)
  have "event_term discrete ?hp e = ?sq e" if "e \<in> set [0..<?n]" for e
  proof -
    from that assms have "e < length (h_phase sto)" and "e + 1 < length (h_phase sto)"
      by simp_all
    then show ?thesis by (simp add: event_term_def nth_accumulate_h_phase)
  qed
  then have "map (event_term discrete ?hp) [0..<?n] = map ?sq [0..<?n]"
    by (simp only: map_eq_conv) blast
  with ret have val: "fst (STO_KKTError sto discrete kkt_res)
      = sqrt (\<Sum>e\<leftarrow>[0..<?n]. ?sq e)"
    by simp
  have "fst (STO_KKTError sto discrete kkt_res) = 0"
    if "\<forall>e < ?n. \<not> isSTOEnabledEvent_of discrete e"
  proof -
    have "(\<Sum>e\<leftarrow>[0..<?n]. ?sq e) = 0"
      by (rule sum_list_all_zero) (use that in simp)
    with val show ?thesis by simp
  qed
  with val show ?thesis by blast
qed

theorem STO_KKTError_value_witness:
  "fst (STO_KKTError (sample_sto 1) sample_discretization
      \<lparr> data = [sample_residual 5 [0, 0], sample_residual 1 [0, 0], sample_residual 0 [0, 0]],
        aux = [sample_residual 1 [0, 0]], lift = [], impulse = [()], switching = [()] \<rparr>) = 3
   \<and> fst (STO_KKTError (sample_sto 1)
      (sample_discretization\<lparr>isSTOEnabledImpulse := \<lambda>i. False\<rparr>)
      \<lparr> data = [sample_residual 5 [0, 0], sample_residual 1 [0, 0], sample_residual 0 [0, 0]],
        aux = [sample_residual 1 [0, 0]], lift = [], impulse = [()], switching = [()] \<rparr>) = 0"
proof -
  let ?kkt = "\<lparr> data = [sample_residual 5 [0, 0], sample_residual 1 [0, 0],
      sample_residual 0 [0, 0]], aux = [sample_residual 1 [0, 0]], lift = [],
      impulse = [()], switching = [()] \<rparr>"
  let ?off = "sample_discretization\<lparr>isSTOEnabledImpulse := \<lambda>i. False\<rparr>"
  have len: "N_impulse sample_discretization + N_lift sample_discretization
      < length (h_phase (sample_sto 1))"
    by simp
  have on: "isSTOEnabledEvent_of sample_discretization 0"
    by (simp add: isSTOEnabledEvent_of_def)
  have a: "fst (STO_KKTError (sample_sto 1) sample_discretization ?kkt) = 3"
    using on STO_KKTError_value [OF len, of ?kkt]
    by (simp add: phase_hamiltonian_def eval_nat_numeral real_sqrt_unique)
  have len': "N_impulse ?off + N_lift ?off < length (h_phase (sample_sto 1))"
    by simp
  have off: "\<forall>e < N_impulse ?off + N_lift ?off. \<not> isSTOEnabledEvent_of ?off e"
    by (simp add: isSTOEnabledEvent_of_def)
  have b: "fst (STO_KKTError (sample_sto 1) ?off ?kkt) = 0"
    using off STO_KKTError_value [OF len', of ?kkt] by blast
  from a b show ?thesis by simp
qed

lemma impulse_loop_frame:
  "lift_time (for_loop n (\<lambda>i cs. if en i then setImpulseTime cs i (impulseTime cs i + step i)
       else cs) cs) = lift_time cs
   \<and> length (impulse_time (for_loop n (\<lambda>i cs. if en i
       then setImpulseTime cs i (impulseTime cs i + step i) else cs) cs))
     = length (impulse_time cs)"
  by (induction n) (simp_all add: setImpulseTime_def)

lemma impulse_loop_nth:
  "j < length (impulse_time cs) \<Longrightarrow>
   impulse_time (for_loop n (\<lambda>i cs. if en i then setImpulseTime cs i (impulseTime cs i + step i)
       else cs) cs) ! j
     = (if j < n \<and> en j then impulse_time cs ! j + step j else impulse_time cs ! j)"
proof (induction n)
  case 0
  then show ?case by simp
next
  case (Suc n)
  let ?prev = "for_loop n (\<lambda>i cs. if en i then setImpulseTime cs i (impulseTime cs i + step i)
       else cs) cs"
  have len: "j < length (impulse_time ?prev)"
    using Suc.prems impulse_loop_frame [of n en step cs] by simp
  have ih: "impulse_time ?prev ! j
      = (if j < n \<and> en j then impulse_time cs ! j + step j else impulse_time cs ! j)"
    using Suc by simp
  show ?case
  proof (cases "en n")
    case False
    then have "for_loop (Suc n) (\<lambda>i cs. if en i
        then setImpulseTime cs i (impulseTime cs i + step i) else cs) cs = ?prev"
      by simp
    moreover from False have "(j < Suc n \<and> en j) = (j < n \<and> en j)"
      by (auto simp: less_Suc_eq)
    ultimately show ?thesis using ih by simp
  next
    case True
    then have eq: "for_loop (Suc n) (\<lambda>i cs. if en i
        then setImpulseTime cs i (impulseTime cs i + step i) else cs) cs
        = setImpulseTime ?prev n (impulseTime ?prev n + step n)"
      by simp
    show ?thesis
    proof (cases "j = n")
      case True
      with \<open>en n\<close> len ih show ?thesis
        unfolding eq by (simp add: setImpulseTime_def impulseTime_def)
    next
      case False
      then have "(j < Suc n \<and> en j) = (j < n \<and> en j)" by (auto simp: less_Suc_eq)
      with False len ih show ?thesis
        unfolding eq by (simp add: setImpulseTime_def)
    qed
  qed
qed

lemma lift_loop_frame:
  "impulse_time (for_loop n (\<lambda>i cs. if en i then setLiftTime cs i (liftTime cs i + step i)
       else cs) cs) = impulse_time cs
   \<and> length (lift_time (for_loop n (\<lambda>i cs. if en i
       then setLiftTime cs i (liftTime cs i + step i) else cs) cs))
     = length (lift_time cs)"
  by (induction n) (simp_all add: setLiftTime_def)

lemma lift_loop_nth:
  "j < length (lift_time cs) \<Longrightarrow>
   lift_time (for_loop n (\<lambda>i cs. if en i then setLiftTime cs i (liftTime cs i + step i)
       else cs) cs) ! j
     = (if j < n \<and> en j then lift_time cs ! j + step j else lift_time cs ! j)"
proof (induction n)
  case 0
  then show ?case by simp
next
  case (Suc n)
  let ?prev = "for_loop n (\<lambda>i cs. if en i then setLiftTime cs i (liftTime cs i + step i)
       else cs) cs"
  have len: "j < length (lift_time ?prev)"
    using Suc.prems lift_loop_frame [of n en step cs] by simp
  have ih: "lift_time ?prev ! j
      = (if j < n \<and> en j then lift_time cs ! j + step j else lift_time cs ! j)"
    using Suc by simp
  show ?case
  proof (cases "en n")
    case False
    then have "for_loop (Suc n) (\<lambda>i cs. if en i
        then setLiftTime cs i (liftTime cs i + step i) else cs) cs = ?prev"
      by simp
    moreover from False have "(j < Suc n \<and> en j) = (j < n \<and> en j)"
      by (auto simp: less_Suc_eq)
    ultimately show ?thesis using ih by simp
  next
    case True
    then have eq: "for_loop (Suc n) (\<lambda>i cs. if en i
        then setLiftTime cs i (liftTime cs i + step i) else cs) cs
        = setLiftTime ?prev n (liftTime ?prev n + step n)"
      by simp
    show ?thesis
    proof (cases "j = n")
      case True
      with \<open>en n\<close> len ih show ?thesis
        unfolding eq by (simp add: setLiftTime_def liftTime_def)
    next
      case False
      then have "(j < Suc n \<and> en j) = (j < n \<and> en j)" by (auto simp: less_Suc_eq)
      with False len ih show ?thesis
        unfolding eq by (simp add: setLiftTime_def)
    qed
  qed
qed

text \<open>
  Claim C8. When the switching-time optimization is enabled, \<open>STO::integrateSolution\<close> sets
  the time of each impulse event whose flag is on to its previous time plus
  \<open>primal_step_size\<close> times the direction \<open>dts\<close> of the aux stage of the event, and the
  time of each lift event whose flag is on to its previous time plus \<open>primal_step_size\<close>
  times the direction \<open>dts\<close> of its lift stage; the times of the events whose flag is off,
  and the number of events, stay as they were. When the optimization is disabled the
  function changes neither the contact sequence nor the object.
\<close>

theorem STO_integrateSolution_times:
  "(is_sto_enabled sto \<longrightarrow>
      (\<forall>i < length (impulse_time contact_sequence).
          impulseTime (fst (STO_integrateSolution updateSlack updateDual sto discrete
              contact_sequence primal_step_size dual_step_size d)) i
          = (if i < N_impulse discrete \<and> isSTOEnabledImpulse discrete i
             then impulseTime contact_sequence i + primal_step_size * dts (aux d ! i)
             else impulseTime contact_sequence i))
      \<and> (\<forall>i < length (lift_time contact_sequence).
          liftTime (fst (STO_integrateSolution updateSlack updateDual sto discrete
              contact_sequence primal_step_size dual_step_size d)) i
          = (if i < N_lift discrete \<and> isSTOEnabledLift discrete i
             then liftTime contact_sequence i + primal_step_size * dts (lift d ! i)
             else liftTime contact_sequence i))
      \<and> length (impulse_time (fst (STO_integrateSolution updateSlack updateDual sto discrete
              contact_sequence primal_step_size dual_step_size d)))
          = length (impulse_time contact_sequence)
      \<and> length (lift_time (fst (STO_integrateSolution updateSlack updateDual sto discrete
              contact_sequence primal_step_size dual_step_size d)))
          = length (lift_time contact_sequence))
   \<and> (\<not> is_sto_enabled sto \<longrightarrow>
        STO_integrateSolution updateSlack updateDual sto discrete contact_sequence
            primal_step_size dual_step_size d = (contact_sequence, sto))"
proof -
  let ?en1 = "isSTOEnabledImpulse discrete"
  let ?st1 = "\<lambda>i. primal_step_size * dts (aux d ! i)"
  let ?en2 = "isSTOEnabledLift discrete"
  let ?st2 = "\<lambda>i. primal_step_size * dts (lift d ! i)"
  let ?cs1 = "for_loop (N_impulse discrete) (\<lambda>i cs. if ?en1 i
      then setImpulseTime cs i (impulseTime cs i + ?st1 i) else cs) contact_sequence"
  let ?cs2 = "for_loop (N_lift discrete) (\<lambda>i cs. if ?en2 i
      then setLiftTime cs i (liftTime cs i + ?st2 i) else cs) ?cs1"
  have res: "fst (STO_integrateSolution updateSlack updateDual sto discrete contact_sequence
      primal_step_size dual_step_size d) = ?cs2" if "is_sto_enabled sto"
    using that unfolding STO_integrateSolution_def Let_def by simp
  have f1: "lift_time ?cs1 = lift_time contact_sequence"
    and l1: "length (impulse_time ?cs1) = length (impulse_time contact_sequence)"
    using impulse_loop_frame [of "N_impulse discrete" ?en1 ?st1 contact_sequence] by simp_all
  have f2: "impulse_time ?cs2 = impulse_time ?cs1"
    and l2: "length (lift_time ?cs2) = length (lift_time ?cs1)"
    using lift_loop_frame [of "N_lift discrete" ?en2 ?st2 ?cs1] by simp_all
  have imp: "impulseTime ?cs2 i
      = (if i < N_impulse discrete \<and> ?en1 i
         then impulseTime contact_sequence i + ?st1 i else impulseTime contact_sequence i)"
    if "i < length (impulse_time contact_sequence)" for i
    using impulse_loop_nth [OF that, of "N_impulse discrete" ?en1 ?st1]
    by (simp add: impulseTime_def f2)
  have lft: "liftTime ?cs2 i
      = (if i < N_lift discrete \<and> ?en2 i
         then liftTime contact_sequence i + ?st2 i else liftTime contact_sequence i)"
    if "i < length (lift_time contact_sequence)" for i
  proof -
    from that have "i < length (lift_time ?cs1)" by (simp only: f1)
    from lift_loop_nth [OF this, of "N_lift discrete" ?en2 ?st2]
    show ?thesis by (simp add: liftTime_def f1)
  qed
  have off: "STO_integrateSolution updateSlack updateDual sto discrete contact_sequence
      primal_step_size dual_step_size d = (contact_sequence, sto)" if "\<not> is_sto_enabled sto"
    using that by (simp add: STO_integrateSolution_def)
  show ?thesis
  proof (cases "is_sto_enabled sto")
    case True
    show ?thesis
      unfolding res [OF True] using True imp lft l1 l2 f1 f2 by simp
  next
    case False
    with off show ?thesis by simp
  qed
qed

theorem STO_integrateSolution_times_witness:
  "impulseTime (fst (STO_integrateSolution (\<lambda>c a. c) (\<lambda>c a. c) (sample_sto 1)
      sample_discretization \<lparr> impulse_time = [1 / 4], lift_time = [3 / 4] \<rparr> (1 / 2) 1
      \<lparr> data = [\<lparr>dts = 0\<rparr>, \<lparr>dts = 0\<rparr>, \<lparr>dts = 0\<rparr>], aux = [\<lparr>dts = 1 / 10\<rparr>],
        lift = [\<lparr>dts = 1\<rparr>], impulse = [()], switching = [()] \<rparr>)) 0 = 3 / 10
   \<and> liftTime (fst (STO_integrateSolution (\<lambda>c a. c) (\<lambda>c a. c) (sample_sto 1)
      sample_discretization \<lparr> impulse_time = [1 / 4], lift_time = [3 / 4] \<rparr> (1 / 2) 1
      \<lparr> data = [\<lparr>dts = 0\<rparr>, \<lparr>dts = 0\<rparr>, \<lparr>dts = 0\<rparr>], aux = [\<lparr>dts = 1 / 10\<rparr>],
        lift = [\<lparr>dts = 1\<rparr>], impulse = [()], switching = [()] \<rparr>)) 0 = 3 / 4
   \<and> STO_integrateSolution (\<lambda>c a. c) (\<lambda>c a. c) (STO_default () ())
      sample_discretization \<lparr> impulse_time = [1 / 4], lift_time = [3 / 4] \<rparr> (1 / 2) 1
      \<lparr> data = [\<lparr>dts = 0\<rparr>, \<lparr>dts = 0\<rparr>, \<lparr>dts = 0\<rparr>], aux = [\<lparr>dts = 1 / 10\<rparr>],
        lift = [\<lparr>dts = 1\<rparr>], impulse = [()], switching = [()] \<rparr>
     = (\<lparr> impulse_time = [1 / 4], lift_time = [3 / 4] \<rparr>, STO_default () ())"
proof -
  let ?d = "\<lparr> data = [\<lparr>dts = 0\<rparr>, \<lparr>dts = 0\<rparr>, \<lparr>dts = 0\<rparr>], aux = [\<lparr>dts = 1 / 10\<rparr>],
        lift = [\<lparr>dts = 1\<rparr>], impulse = [()], switching = [()] \<rparr>"
  let ?cs = "\<lparr> impulse_time = [1 / 4], lift_time = [3 / 4] \<rparr>"
  have on: "is_sto_enabled (sample_sto 1)" by simp
  have off: "\<not> is_sto_enabled (STO_default () ())" by (simp add: STO_default_def)
  have a: "impulseTime (fst (STO_integrateSolution (\<lambda>c a. c) (\<lambda>c a. c) (sample_sto 1)
      sample_discretization ?cs (1 / 2) 1 ?d)) 0 = 3 / 10
    \<and> liftTime (fst (STO_integrateSolution (\<lambda>c a. c) (\<lambda>c a. c) (sample_sto 1)
      sample_discretization ?cs (1 / 2) 1 ?d)) 0 = 3 / 4"
    using on STO_integrateSolution_times [of "sample_sto 1" ?cs "\<lambda>c a. c" "\<lambda>c a. c"
        sample_discretization "1 / 2" 1 ?d]
    by (simp add: impulseTime_def liftTime_def)
  have b: "STO_integrateSolution (\<lambda>c a. c) (\<lambda>c a. c) (STO_default () ())
      sample_discretization ?cs (1 / 2) 1 ?d = (?cs, STO_default () ())"
    using off STO_integrateSolution_times [of "STO_default () ()" ?cs "\<lambda>c a. c" "\<lambda>c a. c"
        sample_discretization "1 / 2" 1 ?d]
    by blast
  from a b show ?thesis by blast
qed

section \<open>Properties of the fraction-to-boundary rule\<close>

lemma fractionToBoundary_range:
  "0 < tau \<Longrightarrow> positive vec \<Longrightarrow>
     0 < fractionToBoundary tau vec dvec \<and> fractionToBoundary tau vec dvec \<le> 1"
proof (induction tau vec dvec rule: fractionToBoundary.induct)
  case (1 tau x vec dx dvec)
  then have x: "0 < x" and rest: "positive vec" by (simp_all add: positive_def)
  show ?case
  proof (cases "dx < 0")
    case True
    from x \<open>0 < tau\<close> have "- tau * x < 0" by simp
    from this True have "0 < - tau * x / dx" by (rule divide_neg_neg)
    with True 1 rest show ?thesis by (simp add: min_le_iff_disj)
  next
    case False
    with 1 rest show ?thesis by simp
  qed
qed simp_all

lemma entry_within_fraction:
  fixes tau x alpha dx :: real
  assumes "0 \<le> tau" "0 < x" "0 \<le> alpha" "dx < 0 \<longrightarrow> alpha \<le> - tau * x / dx"
  shows "(1 - tau) * x \<le> x + alpha * dx"
proof (cases "dx < 0")
  case True
  with assms have "alpha \<le> - tau * x / dx" by simp
  with True have "- tau * x \<le> alpha * dx"
    using neg_le_divide_eq [of dx alpha "- tau * x"] by blast
  then show ?thesis by (simp add: algebra_simps)
next
  case False
  then have "0 \<le> alpha * dx" using assms by simp
  moreover have "(1 - tau) * x \<le> x" using assms by (simp add: algebra_simps)
  ultimately show ?thesis by linarith
qed

lemma fractionToBoundary_within:
  "0 \<le> tau \<Longrightarrow> positive vec \<Longrightarrow> length dvec = length vec \<Longrightarrow> 0 \<le> alpha \<Longrightarrow>
     alpha \<le> fractionToBoundary tau vec dvec \<Longrightarrow> within_fraction tau vec dvec alpha"
proof (induction tau vec dvec rule: fractionToBoundary.induct)
  case (1 tau x vec dx dvec)
  then have x: "0 < x" and rest: "positive vec" by (simp_all add: positive_def)
  from 1 have le: "dx < 0 \<longrightarrow> alpha \<le> - tau * x / dx" by (simp split: if_splits)
  from 1 have le': "alpha \<le> fractionToBoundary tau vec dvec" by (simp split: if_splits)
  have "(1 - tau) * x \<le> x + alpha * dx"
    using \<open>0 \<le> tau\<close> x \<open>0 \<le> alpha\<close> le by (rule entry_within_fraction)
  moreover have "within_fraction tau vec dvec alpha"
    using 1 rest le' by (cases "dx < 0") simp_all
  ultimately show ?case by (simp add: within_fraction_def)
qed (simp_all add: within_fraction_def)

lemma fractionToBoundary_greatest:
  "0 < tau \<Longrightarrow> positive vec \<Longrightarrow> length dvec = length vec \<Longrightarrow> alpha \<le> 1 \<Longrightarrow>
     within_fraction tau vec dvec alpha \<Longrightarrow> alpha \<le> fractionToBoundary tau vec dvec"
proof (induction tau vec dvec rule: fractionToBoundary.induct)
  case (1 tau x vec dx dvec)
  then have x: "0 < x" and rest: "positive vec" by (simp_all add: positive_def)
  from 1 have here: "(1 - tau) * x \<le> x + alpha * dx"
    and there: "within_fraction tau vec dvec alpha"
    by (simp_all add: within_fraction_def)
  show ?case
  proof (cases "dx < 0")
    case True
    from here have "- tau * x \<le> alpha * dx" by (simp add: algebra_simps)
    with True have "alpha \<le> - tau * x / dx"
      using neg_le_divide_eq [of dx alpha "- tau * x"] by blast
    with True 1 rest there show ?thesis by simp
  next
    case False
    with 1 rest there show ?thesis by simp
  qed
qed simp_all

lemma within_fraction_positive:
  "tau < 1 \<Longrightarrow> positive vec \<Longrightarrow> within_fraction tau vec dvec alpha \<Longrightarrow>
     positive (axpy alpha dvec vec)"
proof (induction vec arbitrary: dvec)
  case Nil
  then show ?case by (simp add: positive_def axpy_def)
next
  case (Cons x vec)
  then obtain dx dvec' where d: "dvec = dx # dvec'"
    by (cases dvec) (simp_all add: within_fraction_def)
  from Cons d have x: "0 < x" and rest: "positive vec"
    and here: "(1 - tau) * x \<le> x + alpha * dx"
    and there: "within_fraction tau vec dvec' alpha"
    by (simp_all add: positive_def within_fraction_def)
  from \<open>tau < 1\<close> x have "0 < (1 - tau) * x" by simp
  with here have "0 < x + alpha * dx" by linarith
  moreover from Cons.IH [OF \<open>tau < 1\<close> rest there] have "positive (axpy alpha dvec' vec)" .
  ultimately show ?case using d by (simp add: positive_def axpy_def)
qed

lemma length_axpy: "length dvec = length vec \<Longrightarrow> length (axpy alpha dvec vec) = length vec"
  by (simp add: axpy_def)

lemma slack_iterate_component:
  "slack (iterate_component cdata it) = axpy (primal_step it) (new_dslack it) (slack cdata)"
  by (simp add: iterate_component_def component_updateSlack_def component_updateDual_def)

lemma dual_iterate_component:
  "dual (iterate_component cdata it) = axpy (dual_step it) (new_ddual it) (dual cdata)"
  by (simp add: iterate_component_def component_updateSlack_def component_updateDual_def)

lemma iteration_within_fraction:
  assumes "0 < tau" "positive (slack cdata)" "positive (dual cdata)"
    and "admissible tau cdata (it # its)"
  shows "within_fraction tau (slack cdata) (new_dslack it) (primal_step it)
    \<and> within_fraction tau (dual cdata) (new_ddual it) (dual_step it)"
proof -
  from assms(4) have ls: "length (new_dslack it) = length (slack cdata)"
    and ld: "length (new_ddual it) = length (dual cdata)"
    and p0: "0 \<le> primal_step it" and d0: "0 \<le> dual_step it"
    and p1: "primal_step it \<le> fractionToBoundary tau (slack cdata) (new_dslack it)"
    and d1: "dual_step it \<le> fractionToBoundary tau (dual cdata) (new_ddual it)"
    by (simp_all add: maxSlackStepSize_def maxDualStepSize_def)
  from \<open>0 < tau\<close> have t: "0 \<le> tau" by simp
  have "within_fraction tau (slack cdata) (new_dslack it) (primal_step it)"
    using t assms(2) ls p0 p1 by (rule fractionToBoundary_within)
  moreover have "within_fraction tau (dual cdata) (new_ddual it) (dual_step it)"
    using t assms(3) ld d0 d1 by (rule fractionToBoundary_within)
  ultimately show ?thesis by simp
qed

lemma iteration_positive:
  assumes "0 < tau" "tau < 1" "positive (slack cdata)" "positive (dual cdata)"
    and "admissible tau cdata (it # its)"
  shows "positive (slack (iterate_component cdata it))
    \<and> positive (dual (iterate_component cdata it))"
proof -
  from iteration_within_fraction [OF assms(1) assms(3) assms(4) assms(5)]
  have ws: "within_fraction tau (slack cdata) (new_dslack it) (primal_step it)"
    and wd: "within_fraction tau (dual cdata) (new_ddual it) (dual_step it)"
    by simp_all
  from within_fraction_positive [OF assms(2) assms(3) ws]
    within_fraction_positive [OF assms(2) assms(4) wd]
  show ?thesis by (simp add: slack_iterate_component dual_iterate_component)
qed

lemma run_positive:
  "0 < tau \<Longrightarrow> tau < 1 \<Longrightarrow> positive (slack cdata) \<Longrightarrow> positive (dual cdata) \<Longrightarrow>
   admissible tau cdata its \<Longrightarrow>
     positive (slack (foldl iterate_component cdata its))
     \<and> positive (dual (foldl iterate_component cdata its))"
proof (induction its arbitrary: cdata)
  case Nil
  then show ?case by simp
next
  case (Cons it its)
  from iteration_positive [OF Cons.prems]
  have "positive (slack (iterate_component cdata it))"
    and "positive (dual (iterate_component cdata it))" by simp_all
  moreover from Cons.prems(5) have "admissible tau (iterate_component cdata it) its" by simp
  ultimately show ?case using Cons.IH [OF Cons.prems(1) Cons.prems(2)] by simp
qed

lemma admissible_drop:
  "admissible tau cdata its \<Longrightarrow>
     admissible tau (foldl iterate_component cdata (take k its)) (drop k its)"
proof (induction its arbitrary: cdata k)
  case Nil
  then show ?case by simp
next
  case (Cons it its)
  show ?case
  proof (cases k)
    case 0
    with Cons.prems show ?thesis by simp
  next
    case (Suc j)
    from Cons.prems have "admissible tau (iterate_component cdata it) its" by simp
    from Cons.IH [OF this, of j] Suc show ?thesis by simp
  qed
qed

text \<open>
  Claim C6. With the fraction-to-boundary parameter \<open>\<tau>\<close> in \<open>(0, 1)\<close>, a component whose
  slack and dual are strictly positive keeps them strictly positive after every iteration
  of an admissible run, and the step applied at each iteration satisfies
  \<open>slack + \<alpha> dslack \<ge> (1 - \<tau>) slack\<close> and \<open>dual + \<alpha> ddual \<ge> (1 - \<tau>) dual\<close> in every entry.
\<close>

theorem fraction_to_boundary_invariant:
  assumes "0 < tau" and "tau < 1"
    and "positive (slack cdata)" and "positive (dual cdata)"
    and "admissible tau cdata its"
  shows "\<forall>k \<le> length its.
      positive (slack (foldl iterate_component cdata (take k its)))
      \<and> positive (dual (foldl iterate_component cdata (take k its)))
      \<and> (k < length its \<longrightarrow>
           within_fraction tau (slack (foldl iterate_component cdata (take k its)))
             (new_dslack (its ! k)) (primal_step (its ! k))
           \<and> within_fraction tau (dual (foldl iterate_component cdata (take k its)))
             (new_ddual (its ! k)) (dual_step (its ! k)))"
proof (intro allI impI)
  fix k
  assume "k \<le> length its"
  let ?c = "foldl iterate_component cdata (take k its)"
  have adm: "admissible tau ?c (drop k its)"
    using assms(5) by (rule admissible_drop)
  have "admissible tau cdata (take k its)"
    using assms(5)
  proof (induction its arbitrary: cdata k)
    case Nil
    then show ?case by simp
  next
    case (Cons it its)
    then show ?case by (cases k) simp_all
  qed
  from run_positive [OF assms(1) assms(2) assms(3) assms(4) this]
  have pos: "positive (slack ?c)" "positive (dual ?c)" by simp_all
  have "within_fraction tau (slack ?c) (new_dslack (its ! k)) (primal_step (its ! k))
      \<and> within_fraction tau (dual ?c) (new_ddual (its ! k)) (dual_step (its ! k))"
    if "k < length its"
  proof -
    from that have "drop k its = its ! k # drop (Suc k) its"
      by (simp add: Cons_nth_drop_Suc)
    with adm have "admissible tau ?c (its ! k # drop (Suc k) its)" by simp
    from iteration_within_fraction [OF assms(1) pos this] show ?thesis .
  qed
  with pos show "positive (slack ?c) \<and> positive (dual ?c)
      \<and> (k < length its \<longrightarrow>
           within_fraction tau (slack ?c) (new_dslack (its ! k)) (primal_step (its ! k))
           \<and> within_fraction tau (dual ?c) (new_ddual (its ! k)) (dual_step (its ! k)))"
    by simp
qed

theorem fraction_to_boundary_invariant_witness:
  "maxSlackStepSize (199 / 200) ((sample_component [1, 2] [1 / 2, 1])\<lparr>dslack := [- 2, 1]\<rparr>)
     = 199 / 400
   \<and> positive (slack (iterate_component (sample_component [1, 2] [1 / 2, 1])
        \<lparr> new_dslack = [- 2, 1], new_ddual = [1, - 4], primal_step = 199 / 400,
          dual_step = 1 / 5 \<rparr>))
   \<and> positive (dual (iterate_component (sample_component [1, 2] [1 / 2, 1])
        \<lparr> new_dslack = [- 2, 1], new_ddual = [1, - 4], primal_step = 199 / 400,
          dual_step = 1 / 5 \<rparr>))
   \<and> within_fraction (199 / 200) [1, 2] [- 2, 1] (199 / 400)
   \<and> within_fraction (199 / 200) [1 / 2, 1] [1, - 4] (1 / 5)"
proof -
  let ?c = "sample_component [1, 2] [1 / 2, 1]"
  let ?it = "\<lparr> new_dslack = [- 2, 1], new_ddual = [1, - 4], primal_step = 199 / 400,
          dual_step = 1 / 5 \<rparr>"
  have tau: "(0::real) < 199 / 200" "(199 / 200 :: real) < 1" by simp_all
  have pos: "positive (slack ?c)" "positive (dual ?c)" by (simp_all add: positive_def)
  have adm: "admissible (199 / 200) ?c [?it]"
    by (simp add: maxSlackStepSize_def maxDualStepSize_def)
  have step: "maxSlackStepSize (199 / 200) (?c\<lparr>dslack := [- 2, 1]\<rparr>) = 199 / 400"
    by (simp add: maxSlackStepSize_def)
  note inv = fraction_to_boundary_invariant [OF tau pos adm]
  from inv [THEN spec, of 1]
  have a: "positive (slack (iterate_component ?c ?it))
      \<and> positive (dual (iterate_component ?c ?it))"
    by simp
  from inv [THEN spec, of 0]
  have b: "within_fraction (199 / 200) [1, 2] [- 2, 1] (199 / 400)
      \<and> within_fraction (199 / 200) [1 / 2, 1] [1, - 4] (1 / 5)"
    by simp
  from step a b show ?thesis by blast
qed

section \<open>Properties of the backward Riccati recursion\<close>

lemma factorize_stage_slot:
  "i \<noteq> N \<Longrightarrow> terminal_slot N (factorize_stage ops nx i a b st) = terminal_slot N st"
  by (simp add: factorize_stage_def terminal_slot_def split: prod.splits)

lemma factorize_aux_slot:
  "terminal_slot N (factorize_aux ops nx k a b st) = terminal_slot N st"
  by (simp add: factorize_aux_def terminal_slot_def split: prod.splits)

lemma factorize_lift_slot:
  "terminal_slot N (factorize_lift ops nx k a b st) = terminal_slot N st"
  by (simp add: factorize_lift_def terminal_slot_def split: prod.splits)

lemma factorize_impulse_slot:
  "terminal_slot N (factorize_impulse ops nx k a st) = terminal_slot N st"
  by (simp add: factorize_impulse_def terminal_slot_def split: prod.splits)

lemma factorize_switching_slot:
  "j \<noteq> N \<Longrightarrow> terminal_slot N (factorize_switching ops nx j k a b st) = terminal_slot N st"
  by (simp add: factorize_switching_def terminal_slot_def split: prod.splits)

lemma backward_body_slot:
  assumes "i < N"
  shows "terminal_slot N (backward_body ops discrete i st) = terminal_slot N st"
proof -
  from assms have ne: "i \<noteq> N" "i - Suc 0 \<noteq> N" by simp_all
  show ?thesis
    unfolding backward_body_def Let_def
    by (simp add: factorize_stage_slot [OF ne(1)] factorize_switching_slot [OF ne(2)]
        factorize_aux_slot factorize_lift_slot factorize_impulse_slot)
qed

lemma sweep_slot:
  "n \<le> N \<Longrightarrow>
     terminal_slot N (for_loop_down n (backward_body ops discrete) st) = terminal_slot N st"
proof (induction n arbitrary: st)
  case 0
  then show ?case by simp
next
  case (Suc n)
  then have "n < N" and "n \<le> N" by simp_all
  from Suc.IH [OF \<open>n \<le> N\<close>, of "backward_body ops discrete n st"]
    backward_body_slot [OF \<open>n < N\<close>, of ops discrete st]
  show ?case by simp
qed

lemma initialize_terminal_slot:
  assumes "N_grid discrete < length (data (st_factorization st))"
  shows "terminal_slot (N_grid discrete) (initialize_terminal discrete st)
    = ((data (st_factorization st) ! N_grid discrete)
         \<lparr>fact_P := Qxx (data (st_kkt_matrix st) ! N_grid discrete),
          fact_s := map uminus (lx (data (st_kkt_residual st) ! N_grid discrete))\<rparr>,
       data (st_kkt_matrix st) ! N_grid discrete,
       data (st_kkt_residual st) ! N_grid discrete)"
  using assms by (simp add: initialize_terminal_def terminal_slot_def Let_def)

text \<open>
  Claim C2. \<open>RiccatiRecursion::backwardRiccatiRecursion\<close> first sets \<open>P\<close> of the
  factorization at stage \<open>N\<close> to the block \<open>Qxx\<close> of the KKT matrix at stage \<open>N\<close> and \<open>s\<close> to
  the negated \<open>lx\<close> of the KKT residual at stage \<open>N\<close>, and then sweeps over the stages
  \<open>N-1\<close> down to \<open>0\<close>. The sweep writes neither the factorization nor the KKT matrix and
  residual of stage \<open>N\<close>, so the terminal factorization still holds these values when the
  function returns.
\<close>

theorem backwardRiccatiRecursion_terminal:
  assumes "N_grid discrete < length (data (st_factorization st))"
  shows "backwardRiccatiRecursion ops discrete st
      = for_loop_down (N_grid discrete) (backward_body ops discrete)
          (initialize_terminal discrete st)
    \<and> fact_P (data (st_factorization (initialize_terminal discrete st)) ! N_grid discrete)
      = Qxx (data (st_kkt_matrix st) ! N_grid discrete)
    \<and> fact_s (data (st_factorization (initialize_terminal discrete st)) ! N_grid discrete)
      = map uminus (lx (data (st_kkt_residual st) ! N_grid discrete))
    \<and> fact_P (data (st_factorization (backwardRiccatiRecursion ops discrete st))
          ! N_grid discrete)
      = Qxx (data (st_kkt_matrix st) ! N_grid discrete)
    \<and> fact_s (data (st_factorization (backwardRiccatiRecursion ops discrete st))
          ! N_grid discrete)
      = map uminus (lx (data (st_kkt_residual st) ! N_grid discrete))
    \<and> data (st_kkt_matrix (backwardRiccatiRecursion ops discrete st)) ! N_grid discrete
      = data (st_kkt_matrix st) ! N_grid discrete
    \<and> data (st_kkt_residual (backwardRiccatiRecursion ops discrete st)) ! N_grid discrete
      = data (st_kkt_residual st) ! N_grid discrete"
proof -
  let ?N = "N_grid discrete"
  let ?init = "initialize_terminal discrete st"
  let ?res = "backwardRiccatiRecursion ops discrete st"
  note init = initialize_terminal_slot [OF assms]
  have "terminal_slot ?N ?res = terminal_slot ?N ?init"
    unfolding backwardRiccatiRecursion_def by (rule sweep_slot) simp
  with init have res: "terminal_slot ?N ?res
    = ((data (st_factorization st) ! ?N)
         \<lparr>fact_P := Qxx (data (st_kkt_matrix st) ! ?N),
          fact_s := map uminus (lx (data (st_kkt_residual st) ! ?N))\<rparr>,
       data (st_kkt_matrix st) ! ?N, data (st_kkt_residual st) ! ?N)"
    by simp
  from init have a: "data (st_factorization ?init) ! ?N
      = (data (st_factorization st) ! ?N)
         \<lparr>fact_P := Qxx (data (st_kkt_matrix st) ! ?N),
          fact_s := map uminus (lx (data (st_kkt_residual st) ! ?N))\<rparr>"
    by (simp add: terminal_slot_def)
  from res have b: "data (st_factorization ?res) ! ?N
      = (data (st_factorization st) ! ?N)
         \<lparr>fact_P := Qxx (data (st_kkt_matrix st) ! ?N),
          fact_s := map uminus (lx (data (st_kkt_residual st) ! ?N))\<rparr>"
    and c: "data (st_kkt_matrix ?res) ! ?N = data (st_kkt_matrix st) ! ?N"
    and d: "data (st_kkt_residual ?res) ! ?N = data (st_kkt_residual st) ! ?N"
    by (simp_all add: terminal_slot_def)
  show ?thesis
    by (simp add: a b c d) (simp add: backwardRiccatiRecursion_def)
qed

theorem backwardRiccatiRecursion_terminal_witness:
  "fact_P (data (st_factorization (backwardRiccatiRecursion sample_factorizer_ops
      sample_discretization sample_riccati_state)) ! 2) = [[2, 0], [0, 3]]
   \<and> fact_s (data (st_factorization (backwardRiccatiRecursion sample_factorizer_ops
      sample_discretization sample_riccati_state)) ! 2) = [- 1, 4]"
proof -
  have len: "N_grid sample_discretization < length (data (st_factorization sample_riccati_state))"
    by simp
  note rest = backwardRiccatiRecursion_terminal [OF len, of sample_factorizer_ops,
      THEN conjunct2, THEN conjunct2, THEN conjunct2]
  from rest [THEN conjunct1] rest [THEN conjunct2, THEN conjunct1]
  show ?thesis by simp
qed

section \<open>Properties of the step sizes over the horizon\<close>

lemma length_stage_slots:
  "containers_in_range discrete ocp \<Longrightarrow>
     length (stage_slots fw fi ft discrete ocp) = num_stage_slots discrete"
  by (simp add: stage_slots_def containers_in_range_def num_stage_slots_def)

lemma nth_stage_slots:
  assumes "containers_in_range discrete ocp" and "i < num_stage_slots discrete"
  shows "stage_slots fw fi ft discrete ocp ! i = slot_value fw fi ft discrete ocp i"
proof -
  let ?N = "N_grid discrete" and ?I = "N_impulse discrete" and ?L = "N_lift discrete"
  from assms(1) have r: "?N \<le> length (data ocp)" "?I \<le> length (impulse ocp)"
    "?I \<le> length (aux ocp)" "?L \<le> length (lift ocp)"
    by (simp_all add: containers_in_range_def)
  from assms(2) have i: "i < ?N + 1 + 2 * ?I + ?L" by (simp add: num_stage_slots_def)
  consider (a) "i < ?N" | (b) "i = ?N" | (c) "?N < i" "i < ?N + 1 + ?I"
    | (d) "?N + 1 + ?I \<le> i" "i < ?N + 1 + 2 * ?I" | (e) "?N + 1 + 2 * ?I \<le> i"
    by linarith
  then show ?thesis
  proof cases
    case a
    with r show ?thesis by (simp add: stage_slots_def slot_value_def nth_append)
  next
    case b
    with r show ?thesis by (simp add: stage_slots_def slot_value_def nth_append)
  next
    case c
    then have "i - ?N = Suc (i - (?N + 1))" and "i - (?N + 1) < ?I"
      and "i - Suc ?N < ?I" by simp_all
    with c r show ?thesis
      by (simp add: stage_slots_def slot_value_def nth_append)
  next
    case d
    then have "i - ?N = Suc (i - (?N + 1))"
      and "i - (?N + 1) - ?I = i - (?N + 1 + ?I)" and "\<not> i - (?N + 1) < ?I"
      and "i - (?N + 1 + ?I) < ?I" and "\<not> i - Suc ?N < ?I"
      and "i - Suc ?N - ?I = i - (?N + 1 + ?I)" by simp_all
    with d r show ?thesis
      by (simp add: stage_slots_def slot_value_def nth_append)
  next
    case e
    then have "i - ?N = Suc (i - (?N + 1))"
      and "i - (?N + 1) - ?I - ?I = i - (?N + 1 + 2 * ?I)" and "\<not> i - (?N + 1) < ?I"
      and "\<not> i - (?N + 1) - ?I < ?I"
      and "i - (?N + 1 + 2 * ?I) < ?L" and "\<not> i - Suc ?N < ?I"
      and "\<not> i - Suc ?N - ?I < ?I"
      and "i - Suc ?N - ?I - ?I = i - (?N + 1 + 2 * ?I)" using i by simp_all
    with e r show ?thesis
      by (simp add: stage_slots_def slot_value_def nth_append)
  qed
qed

lemma stage_branch:
  "\<exists>w d'. computeDirection_stage ops discrete cs factorization i (ocp, d, rr)
     = (ocp\<lparr>data := (data ocp)[i := w]\<rparr>, d',
        store_step_sizes i (stage_maxPrimalStepSize ((data ocp)[i := w] ! i))
          (stage_maxDualStepSize ((data ocp)[i := w] ! i)) rr)"
  by (simp add: computeDirection_stage_def Let_def split: prod.splits) blast

lemma terminal_branch:
  "\<exists>d'. computeDirection_terminal ops discrete factorization (ocp, d, rr)
     = (ocp, d',
        store_step_sizes (N_grid discrete) (stage_maxPrimalStepSize (terminal ocp))
          (stage_maxDualStepSize (terminal ocp)) rr)"
  by (simp add: computeDirection_terminal_def Let_def)

lemma impulse_branch:
  "\<exists>w d'. computeDirection_impulse ops discrete cs factorization i (ocp, d, rr)
     = (ocp\<lparr>impulse := (impulse ocp)[i - (N_grid discrete + 1) := w]\<rparr>, d',
        store_step_sizes i
          (stage_maxPrimalStepSize
             ((impulse ocp)[i - (N_grid discrete + 1) := w] ! (i - (N_grid discrete + 1))))
          (stage_maxDualStepSize
             ((impulse ocp)[i - (N_grid discrete + 1) := w] ! (i - (N_grid discrete + 1))))
          rr)"
  by (simp add: computeDirection_impulse_def Let_def split: prod.splits) blast

lemma aux_branch:
  "\<exists>w d'. computeDirection_aux ops discrete cs factorization i (ocp, d, rr)
     = (ocp\<lparr>aux := (aux ocp)[i - (N_grid discrete + 1 + N_impulse discrete) := w]\<rparr>, d',
        store_step_sizes i
          (stage_maxPrimalStepSize
             ((aux ocp)[i - (N_grid discrete + 1 + N_impulse discrete) := w]
                ! (i - (N_grid discrete + 1 + N_impulse discrete))))
          (stage_maxDualStepSize
             ((aux ocp)[i - (N_grid discrete + 1 + N_impulse discrete) := w]
                ! (i - (N_grid discrete + 1 + N_impulse discrete))))
          rr)"
  by (simp add: computeDirection_aux_def Let_def split: prod.splits) blast

lemma lift_branch:
  "\<exists>w d'. computeDirection_lift ops discrete cs factorization i (ocp, d, rr)
     = (ocp\<lparr>lift := (lift ocp)[i - (N_grid discrete + 1 + 2 * N_impulse discrete) := w]\<rparr>, d',
        store_step_sizes i
          (stage_maxPrimalStepSize
             ((lift ocp)[i - (N_grid discrete + 1 + 2 * N_impulse discrete) := w]
                ! (i - (N_grid discrete + 1 + 2 * N_impulse discrete))))
          (stage_maxDualStepSize
             ((lift ocp)[i - (N_grid discrete + 1 + 2 * N_impulse discrete) := w]
                ! (i - (N_grid discrete + 1 + 2 * N_impulse discrete))))
          rr)"
  by (simp add: computeDirection_lift_def Let_def split: prod.splits) blast

lemma body_step:
  assumes "containers_in_range discrete ocp" and "k < num_stage_slots discrete"
  shows "(case computeDirection_body ops discrete cs factorization k (ocp, d, rr) of
     (ocp', d', rr') \<Rightarrow>
        length (data ocp') = length (data ocp)
        \<and> length (impulse ocp') = length (impulse ocp)
        \<and> length (aux ocp') = length (aux ocp)
        \<and> length (lift ocp') = length (lift ocp)
        \<and> max_primal_step_sizes rr'
            = (max_primal_step_sizes rr)
                [k := slot_value stage_maxPrimalStepSize stage_maxPrimalStepSize
                        stage_maxPrimalStepSize discrete ocp' k]
        \<and> max_dual_step_sizes rr'
            = (max_dual_step_sizes rr)
                [k := slot_value stage_maxDualStepSize stage_maxDualStepSize
                        stage_maxDualStepSize discrete ocp' k]
        \<and> (\<forall>fw fi ft i. i \<noteq> k \<longrightarrow> i < num_stage_slots discrete \<longrightarrow>
              slot_value fw fi ft discrete ocp' i = slot_value fw fi ft discrete ocp i))"
proof -
  let ?N = "N_grid discrete" and ?I = "N_impulse discrete" and ?L = "N_lift discrete"
  from assms(1) have r: "?N \<le> length (data ocp)" "?I \<le> length (impulse ocp)"
    "?I \<le> length (aux ocp)" "?L \<le> length (lift ocp)"
    by (simp_all add: containers_in_range_def)
  from assms(2) have k: "k < ?N + 1 + 2 * ?I + ?L" by (simp add: num_stage_slots_def)
  consider (a) "k < ?N" | (b) "k = ?N" | (c) "?N < k" "k < ?N + 1 + ?I"
    | (d) "?N + 1 + ?I \<le> k" "k < ?N + 1 + 2 * ?I" | (e) "?N + 1 + 2 * ?I \<le> k"
    by linarith
  then show ?thesis
  proof cases
    case a
    from stage_branch [of ops discrete cs factorization k ocp d rr]
    obtain w d' where "computeDirection_stage ops discrete cs factorization k (ocp, d, rr)
     = (ocp\<lparr>data := (data ocp)[k := w]\<rparr>, d',
        store_step_sizes k (stage_maxPrimalStepSize ((data ocp)[k := w] ! k))
          (stage_maxDualStepSize ((data ocp)[k := w] ! k)) rr)" by blast
    with a r show ?thesis
      by (simp add: computeDirection_body_def store_step_sizes_def
          slot_value_def nth_list_update)
  next
    case b
    from terminal_branch [of ops discrete factorization ocp d rr]
    obtain d' where "computeDirection_terminal ops discrete factorization (ocp, d, rr)
     = (ocp, d',
        store_step_sizes (N_grid discrete) (stage_maxPrimalStepSize (terminal ocp))
          (stage_maxDualStepSize (terminal ocp)) rr)" by blast
    with b show ?thesis
      by (simp add: computeDirection_body_def store_step_sizes_def
          slot_value_def)
  next
    case c
    let ?j = "k - (?N + 1)"
    from impulse_branch [of ops discrete cs factorization k ocp d rr]
    obtain w d' where "computeDirection_impulse ops discrete cs factorization k (ocp, d, rr)
     = (ocp\<lparr>impulse := (impulse ocp)[?j := w]\<rparr>, d',
        store_step_sizes k (stage_maxPrimalStepSize ((impulse ocp)[?j := w] ! ?j))
          (stage_maxDualStepSize ((impulse ocp)[?j := w] ! ?j)) rr)" by blast
    moreover from c r have "?j < length (impulse ocp)" by simp
    moreover have "i - Suc ?N \<noteq> k - Suc ?N" if "i \<noteq> k" "?N < i" for i
      using that c by simp
    ultimately show ?thesis using c
      by (simp add: computeDirection_body_def store_step_sizes_def
          slot_value_def nth_list_update)
  next
    case d
    let ?j = "k - (?N + 1 + ?I)"
    from aux_branch [of ops discrete cs factorization k ocp d rr]
    obtain w d' where "computeDirection_aux ops discrete cs factorization k (ocp, d, rr)
     = (ocp\<lparr>aux := (aux ocp)[?j := w]\<rparr>, d',
        store_step_sizes k (stage_maxPrimalStepSize ((aux ocp)[?j := w] ! ?j))
          (stage_maxDualStepSize ((aux ocp)[?j := w] ! ?j)) rr)" by blast
    moreover from d r have "?j < length (aux ocp)" by simp
    moreover have "i - Suc (?N + ?I) \<noteq> k - Suc (?N + ?I)"
      if "i \<noteq> k" "\<not> i < Suc (?N + ?I)" for i
      using that d by simp
    ultimately show ?thesis using d
      by (simp add: computeDirection_body_def store_step_sizes_def
          slot_value_def nth_list_update)
  next
    case e
    let ?j = "k - (?N + 1 + 2 * ?I)"
    from lift_branch [of ops discrete cs factorization k ocp d rr]
    obtain w d' where "computeDirection_lift ops discrete cs factorization k (ocp, d, rr)
     = (ocp\<lparr>lift := (lift ocp)[?j := w]\<rparr>, d',
        store_step_sizes k (stage_maxPrimalStepSize ((lift ocp)[?j := w] ! ?j))
          (stage_maxDualStepSize ((lift ocp)[?j := w] ! ?j)) rr)" by blast
    moreover from e r k have "?j < length (lift ocp)" by simp
    moreover have "i - Suc (?N + 2 * ?I) \<noteq> k - Suc (?N + 2 * ?I)"
      if "i \<noteq> k" "\<not> i < Suc (?N + 2 * ?I)" for i
      using that e by simp
    ultimately show ?thesis using e
      by (simp add: computeDirection_body_def store_step_sizes_def
          slot_value_def nth_list_update)
  qed
qed

lemma loop_invariant:
  assumes "containers_in_range discrete ocp"
  shows "n \<le> num_stage_slots discrete \<Longrightarrow>
    (case for_loop n (computeDirection_body ops discrete cs factorization) (ocp, d, rr) of
       (ocp', d', rr') \<Rightarrow>
         containers_in_range discrete ocp'
         \<and> length (max_primal_step_sizes rr') = length (max_primal_step_sizes rr)
         \<and> length (max_dual_step_sizes rr') = length (max_dual_step_sizes rr)
         \<and> (\<forall>i < n. i < length (max_primal_step_sizes rr) \<longrightarrow>
               max_primal_step_sizes rr' ! i
                 = slot_value stage_maxPrimalStepSize stage_maxPrimalStepSize
                     stage_maxPrimalStepSize discrete ocp' i)
         \<and> (\<forall>i < n. i < length (max_dual_step_sizes rr) \<longrightarrow>
               max_dual_step_sizes rr' ! i
                 = slot_value stage_maxDualStepSize stage_maxDualStepSize
                     stage_maxDualStepSize discrete ocp' i))"
proof (induction n)
  case 0
  with assms show ?case by simp
next
  case (Suc n)
  obtain ocp1 d1 rr1 where prev:
    "for_loop n (computeDirection_body ops discrete cs factorization) (ocp, d, rr)
       = (ocp1, d1, rr1)"
    by (cases "for_loop n (computeDirection_body ops discrete cs factorization) (ocp, d, rr)")
      auto
  obtain ocp2 d2 rr2 where nxt:
    "computeDirection_body ops discrete cs factorization n (ocp1, d1, rr1) = (ocp2, d2, rr2)"
    by (cases "computeDirection_body ops discrete cs factorization n (ocp1, d1, rr1)") auto
  from Suc.prems have n: "n < num_stage_slots discrete" and "n \<le> num_stage_slots discrete"
    by simp_all
  from Suc.IH [OF this(2)] prev
  have ih: "containers_in_range discrete ocp1"
    "length (max_primal_step_sizes rr1) = length (max_primal_step_sizes rr)"
    "length (max_dual_step_sizes rr1) = length (max_dual_step_sizes rr)"
    "\<forall>i < n. i < length (max_primal_step_sizes rr) \<longrightarrow>
       max_primal_step_sizes rr1 ! i
         = slot_value stage_maxPrimalStepSize stage_maxPrimalStepSize
             stage_maxPrimalStepSize discrete ocp1 i"
    "\<forall>i < n. i < length (max_dual_step_sizes rr) \<longrightarrow>
       max_dual_step_sizes rr1 ! i
         = slot_value stage_maxDualStepSize stage_maxDualStepSize
             stage_maxDualStepSize discrete ocp1 i"
    by simp_all
  from body_step [OF ih(1) n, where d = d1 and rr = rr1 and ops = ops and cs = cs
      and factorization = factorization] nxt
  have st: "length (data ocp2) = length (data ocp1)"
    "length (impulse ocp2) = length (impulse ocp1)"
    "length (aux ocp2) = length (aux ocp1)"
    "length (lift ocp2) = length (lift ocp1)"
    "max_primal_step_sizes rr2
       = (max_primal_step_sizes rr1)
           [n := slot_value stage_maxPrimalStepSize stage_maxPrimalStepSize
                   stage_maxPrimalStepSize discrete ocp2 n]"
    "max_dual_step_sizes rr2
       = (max_dual_step_sizes rr1)
           [n := slot_value stage_maxDualStepSize stage_maxDualStepSize
                   stage_maxDualStepSize discrete ocp2 n]"
    and frame: "\<And>fw fi ft i. i \<noteq> n \<Longrightarrow> i < num_stage_slots discrete \<Longrightarrow>
       slot_value fw fi ft discrete ocp2 i = slot_value fw fi ft discrete ocp1 i"
    by simp_all
  have rng: "containers_in_range discrete ocp2"
    using ih(1) st(1-4) by (simp add: containers_in_range_def)
  have p: "max_primal_step_sizes rr2 ! i
      = slot_value stage_maxPrimalStepSize stage_maxPrimalStepSize
          stage_maxPrimalStepSize discrete ocp2 i"
    if "i < Suc n" "i < length (max_primal_step_sizes rr)" for i
  proof (cases "i = n")
    case True
    with that ih(2) show ?thesis by (simp add: st(5))
  next
    case False
    with that have "i < n" by simp
    moreover from this n have "i < num_stage_slots discrete" by simp
    ultimately show ?thesis using False that ih(4) frame by (simp add: st(5))
  qed
  have q: "max_dual_step_sizes rr2 ! i
      = slot_value stage_maxDualStepSize stage_maxDualStepSize
          stage_maxDualStepSize discrete ocp2 i"
    if "i < Suc n" "i < length (max_dual_step_sizes rr)" for i
  proof (cases "i = n")
    case True
    with that ih(3) show ?thesis by (simp add: st(6))
  next
    case False
    with that have "i < n" by simp
    moreover from this n have "i < num_stage_slots discrete" by simp
    ultimately show ?thesis using False that ih(5) frame by (simp add: st(6))
  qed
  show ?case
    using rng p q ih(2) ih(3) by (simp add: prev nxt st(5) st(6))
qed

lemma minCoeff_Min: "v \<noteq> [] \<Longrightarrow> minCoeff v = Min (set v)"
proof -
  assume "v \<noteq> []"
  then obtain a list where v: "v = a # list" by (cases v) auto
  have "Min (set (a # list)) = fold min list a" by (rule Min.set_eq_fold)
  with v show ?thesis by (simp add: minCoeff_def)
qed

lemma foldr_min_Min: "foldr min xs (c::real) = Min (insert c (set xs))"
proof (induction xs)
  case Nil
  then show ?case by simp
next
  case (Cons x xs)
  have "Min (insert c (set (x # xs))) = Min (insert x (insert c (set xs)))"
    by (simp add: insert_commute)
  also have "\<dots> = min x (Min (insert c (set xs)))"
    by (rule Min_insert) simp_all
  finally show ?case using Cons by simp
qed

text \<open>
  Claim C5. After \<open>computeDirection\<close>, \<open>maxPrimalStepSize()\<close> is the minimum of the maximum
  primal step sizes of all \<open>N + 1 + 2 N_impulse + N_lift\<close> stage slots (the time stages,
  the terminal stage, the impulse stages, the aux stages and the lift stages, each worker
  taken as \<open>computeDirection\<close> leaves it), and \<open>maxDualStepSize()\<close> is the minimum of their
  maximum dual step sizes. The value of a stage is the minimum of the step sizes of the
  constraint components of the stage, none of which exceeds 1. The counts and indices of
  the discretization have to lie inside the containers and the two buffers.
\<close>

theorem computeDirection_step_sizes:
  assumes "containers_in_range discrete ocp"
    and "num_stage_slots discrete \<le> length (max_primal_step_sizes rr)"
    and "num_stage_slots discrete \<le> length (max_dual_step_sizes rr)"
    and "computeDirection ops discrete cs factorization (ocp, d, rr) = (ocp', d', rr')"
  shows "RiccatiRecursion_maxPrimalStepSize rr'
      = Min (set (stage_slots stage_maxPrimalStepSize stage_maxPrimalStepSize
                    stage_maxPrimalStepSize discrete ocp'))
    \<and> RiccatiRecursion_maxDualStepSize rr'
      = Min (set (stage_slots stage_maxDualStepSize stage_maxDualStepSize
                    stage_maxDualStepSize discrete ocp'))
    \<and> length (stage_slots stage_maxPrimalStepSize stage_maxPrimalStepSize
                    stage_maxPrimalStepSize discrete ocp')
      = N_grid discrete + 1 + 2 * N_impulse discrete + N_lift discrete
    \<and> length (stage_slots stage_maxDualStepSize stage_maxDualStepSize
                    stage_maxDualStepSize discrete ocp')
      = N_grid discrete + 1 + 2 * N_impulse discrete + N_lift discrete
    \<and> stage_maxPrimalStepSize w
      = Min (insert 1 (maxSlackStepSize (fraction_to_boundary_rule w)
                         ` set (components (constraints_data w))))
    \<and> stage_maxDualStepSize w
      = Min (insert 1 (maxDualStepSize (fraction_to_boundary_rule w)
                         ` set (components (constraints_data w))))"
proof -
  let ?n = "num_stage_slots discrete"
  let ?P = "stage_slots stage_maxPrimalStepSize stage_maxPrimalStepSize
              stage_maxPrimalStepSize discrete ocp'"
  let ?D = "stage_slots stage_maxDualStepSize stage_maxDualStepSize
              stage_maxDualStepSize discrete ocp'"
  obtain rr1 where loop:
    "for_loop ?n (computeDirection_body ops discrete cs factorization) (ocp, d, rr)
       = (ocp', d', rr1)"
    and rr': "rr' = rr1\<lparr>N_all := int ?n\<rparr>"
    using assms(4) by (auto simp: computeDirection_def split: prod.splits)
  from loop_invariant [OF assms(1), where n = "?n" and ops = ops and cs = cs
      and factorization = factorization and d = d and rr = rr] loop
  have rng: "containers_in_range discrete ocp'"
    and lp: "length (max_primal_step_sizes rr1) = length (max_primal_step_sizes rr)"
    and ld: "length (max_dual_step_sizes rr1) = length (max_dual_step_sizes rr)"
    and vp: "\<forall>i < ?n. i < length (max_primal_step_sizes rr) \<longrightarrow>
               max_primal_step_sizes rr1 ! i
                 = slot_value stage_maxPrimalStepSize stage_maxPrimalStepSize
                     stage_maxPrimalStepSize discrete ocp' i"
    and vd: "\<forall>i < ?n. i < length (max_dual_step_sizes rr) \<longrightarrow>
               max_dual_step_sizes rr1 ! i
                 = slot_value stage_maxDualStepSize stage_maxDualStepSize
                     stage_maxDualStepSize discrete ocp' i"
    by simp_all
  have lenP: "length ?P = ?n" and lenD: "length ?D = ?n"
    using rng by (simp_all add: length_stage_slots)
  have "take ?n (max_primal_step_sizes rr1) = ?P"
  proof (rule nth_equalityI)
    show "length (take ?n (max_primal_step_sizes rr1)) = length ?P"
      using lenP lp assms(2) by simp
  next
    fix i
    assume "i < length (take ?n (max_primal_step_sizes rr1))"
    then have i: "i < ?n" "i < length (max_primal_step_sizes rr)" using lp by simp_all
    with vp nth_stage_slots [OF rng i(1)]
    show "take ?n (max_primal_step_sizes rr1) ! i = ?P ! i" by simp
  qed
  then have hp: "head (nat (N_all rr')) (max_primal_step_sizes rr') = ?P"
    by (simp add: rr' head_def)
  have "take ?n (max_dual_step_sizes rr1) = ?D"
  proof (rule nth_equalityI)
    show "length (take ?n (max_dual_step_sizes rr1)) = length ?D"
      using lenD ld assms(3) by simp
  next
    fix i
    assume "i < length (take ?n (max_dual_step_sizes rr1))"
    then have i: "i < ?n" "i < length (max_dual_step_sizes rr)" using ld by simp_all
    with vd nth_stage_slots [OF rng i(1)]
    show "take ?n (max_dual_step_sizes rr1) ! i = ?D ! i" by simp
  qed
  then have hd: "head (nat (N_all rr')) (max_dual_step_sizes rr') = ?D"
    by (simp add: rr' head_def)
  have ne: "?P \<noteq> []" "?D \<noteq> []"
    using lenP lenD by (auto simp: num_stage_slots_def)
  have a: "RiccatiRecursion_maxPrimalStepSize rr' = Min (set ?P)"
    unfolding RiccatiRecursion_maxPrimalStepSize_def hp using ne(1) by (rule minCoeff_Min)
  have b: "RiccatiRecursion_maxDualStepSize rr' = Min (set ?D)"
    unfolding RiccatiRecursion_maxDualStepSize_def hd using ne(2) by (rule minCoeff_Min)
  have c: "stage_maxPrimalStepSize w
            = Min (insert 1 (maxSlackStepSize (fraction_to_boundary_rule w)
                               ` set (components (constraints_data w))))
          \<and> stage_maxDualStepSize w
            = Min (insert 1 (maxDualStepSize (fraction_to_boundary_rule w)
                               ` set (components (constraints_data w))))"
    by (simp add: stage_maxPrimalStepSize_def stage_maxDualStepSize_def foldr_min_Min)
  from a b c lenP lenD show ?thesis by (simp add: num_stage_slots_def)
qed

theorem computeDirection_step_sizes_witness:
  "RiccatiRecursion_maxPrimalStepSize (snd (snd (computeDirection sample_direction_ops
      sample_discretization () sample_unit_container
      (sample_ocp, sample_unit_container, sample_recursion)))) = 199 / 400
   \<and> RiccatiRecursion_maxDualStepSize (snd (snd (computeDirection sample_direction_ops
      sample_discretization () sample_unit_container
      (sample_ocp, sample_unit_container, sample_recursion)))) = 199 / 800"
proof -
  let ?X = "computeDirection sample_direction_ops sample_discretization ()
      sample_unit_container (sample_ocp, sample_unit_container, sample_recursion)"
  have rng: "containers_in_range sample_discretization sample_ocp"
    by (simp add: containers_in_range_def)
  have bp: "num_stage_slots sample_discretization
      \<le> length (max_primal_step_sizes (sample_recursion))"
    and bd: "num_stage_slots sample_discretization
      \<le> length (max_dual_step_sizes (sample_recursion))"
    by (simp_all add: num_stage_slots_def)
  have run: "?X = (fst ?X, fst (snd ?X), snd (snd ?X))" by simp
  have ocp': "fst ?X = sample_ocp"
    by (simp add: computeDirection_def num_stage_slots_def computeDirection_body_def
        computeDirection_stage_def computeDirection_terminal_def computeDirection_impulse_def
        computeDirection_aux_def computeDirection_lift_def Let_def eval_nat_numeral
        split: prod.splits)
  note result = computeDirection_step_sizes [OF rng bp bd run]
  from result [THEN conjunct1] result [THEN conjunct2, THEN conjunct1]
  show ?thesis
    unfolding ocp'
    by (simp add: stage_slots_def stage_maxPrimalStepSize_def stage_maxDualStepSize_def
        components_def maxSlackStepSize_def maxDualStepSize_def)
qed

section \<open>Properties of the switching constraint\<close>

text \<open>
  Claim C1. For an impulse status with an active impulse and interval widths
  \<open>dt1, dt2 > 0\<close>, \<open>evalSwitchingConstraint\<close> sets the residual \<open>P\<close> to the contact position
  residual at the configuration obtained by integrating \<open>s.q\<close> along
  \<open>(dt1 + dt2) s.v + (dt1 dt2) s.a\<close>, and \<open>linearizeSwitchingConstraint\<close> moreover produces
  \<open>Phiq = Pq\<close>, \<open>Phiv = (dt1 + dt2) Pq\<close> and \<open>Phia = (dt1 dt2) Pq\<close>, where \<open>Pq\<close>, the
  contact position Jacobian at that configuration, is transported through the integration
  (by \<open>dIntegrateTransport_dq\<close> for \<open>Phiq\<close>, by \<open>dIntegrateTransport_dv\<close> for \<open>Phiv\<close> and
  \<open>Phia\<close>) when the robot has a floating base. These are the values to which the two tests
  compare the results.
\<close>

theorem switching_constraint_values:
  assumes "hasActiveImpulse impulse_status" and "0 < dt1" and "0 < dt2"
    and "dq = vec_add (scale (dt1 + dt2) (sol_v s)) (scale (dt1 * dt2) (sol_a s))"
    and "q1 = integrate robot (sol_q s) dq 1"
    and "J = contact_position_derivative robot impulse_status q1"
  shows "res_P (fst (evalSwitchingConstraint robot impulse_status dt1 dt2 s))
      = contact_position_residual robot impulse_status q1
    \<and> fst (evalSwitchingConstraint robot impulse_status dt1 dt2 s)
      = test_evalSwitchingConstraint_ref robot impulse_status dt1 dt2 s
    \<and> fst (snd (linearizeSwitchingConstraint robot impulse_status dt1 dt2 s))
      = fst (evalSwitchingConstraint robot impulse_status dt1 dt2 s)
    \<and> Pq (fst (linearizeSwitchingConstraint robot impulse_status dt1 dt2 s)) = J
    \<and> (\<not> has_floating_base robot \<longrightarrow>
          Phiq (fst (linearizeSwitchingConstraint robot impulse_status dt1 dt2 s)) = J
        \<and> Phiv (fst (linearizeSwitchingConstraint robot impulse_status dt1 dt2 s))
            = scale_matrix (dt1 + dt2) J
        \<and> Phia (fst (linearizeSwitchingConstraint robot impulse_status dt1 dt2 s))
            = scale_matrix (dt1 * dt2) J)
    \<and> (has_floating_base robot \<longrightarrow>
          Phiq (fst (linearizeSwitchingConstraint robot impulse_status dt1 dt2 s))
            = transport_dq robot (sol_q s) dq J
        \<and> Phiv (fst (linearizeSwitchingConstraint robot impulse_status dt1 dt2 s))
            = scale_matrix (dt1 + dt2) (transport_dv robot (sol_q s) dq J)
        \<and> Phia (fst (linearizeSwitchingConstraint robot impulse_status dt1 dt2 s))
            = scale_matrix (dt1 * dt2) (transport_dv robot (sol_q s) dq J))
    \<and> (fst (linearizeSwitchingConstraint robot impulse_status dt1 dt2 s),
        fst (snd (linearizeSwitchingConstraint robot impulse_status dt1 dt2 s)))
      = test_linearizeSwitchingConstraint_ref robot impulse_status dt1 dt2 s"
proof -
  have ev: "evalSwitchingConstraint robot impulse_status dt1 dt2 s
      = (\<lparr> res_P = contact_position_residual robot impulse_status q1 \<rparr>,
         robot\<lparr>kinematics_q := q1\<rparr>)"
    by (simp add: evalSwitchingConstraint_def Let_def switching_increment_def assms(4,5)
        updateKinematics_def integrateConfiguration_def computeContactPositionResidual_def)
  have ref: "test_evalSwitchingConstraint_ref robot impulse_status dt1 dt2 s
      = \<lparr> res_P = contact_position_residual robot impulse_status q1 \<rparr>"
    by (simp add: test_evalSwitchingConstraint_ref_def Let_def assms(4,5)
        updateKinematics_def integrateConfiguration_def computeContactPositionResidual_def)
  have lin: "linearizeSwitchingConstraint robot impulse_status dt1 dt2 s
      = (\<lparr> Pq = J,
           Phiq = (if has_floating_base robot then transport_dq robot (sol_q s) dq J else J),
           Phiv = scale_matrix (dt1 + dt2)
              (if has_floating_base robot then transport_dv robot (sol_q s) dq J else J),
           Phia = scale_matrix (dt1 * dt2)
              (if has_floating_base robot then transport_dv robot (sol_q s) dq J else J) \<rparr>,
         \<lparr> res_P = contact_position_residual robot impulse_status q1 \<rparr>,
         robot\<lparr>kinematics_q := q1\<rparr>)"
    by (simp add: linearizeSwitchingConstraint_def ev Let_def switching_increment_def
        assms(4,6) transported_def hasFloatingBase_def computeContactPositionDerivative_def
        dIntegrateTransport_dq_def dIntegrateTransport_dv_def)
  have lref: "test_linearizeSwitchingConstraint_ref robot impulse_status dt1 dt2 s
      = (\<lparr> Pq = J,
           Phiq = (if has_floating_base robot then transport_dq robot (sol_q s) dq J else J),
           Phiv = scale_matrix (dt1 + dt2)
              (if has_floating_base robot then transport_dv robot (sol_q s) dq J else J),
           Phia = scale_matrix (dt1 * dt2)
              (if has_floating_base robot then transport_dv robot (sol_q s) dq J else J) \<rparr>,
         \<lparr> res_P = contact_position_residual robot impulse_status q1 \<rparr>)"
    by (simp add: test_linearizeSwitchingConstraint_ref_def Let_def assms(4,5,6)
        updateKinematics_def integrateConfiguration_def computeContactPositionResidual_def
        hasFloatingBase_def computeContactPositionDerivative_def
        dIntegrateTransport_dq_def dIntegrateTransport_dv_def)
  show ?thesis by (simp add: ev ref lin lref)
qed

theorem switching_constraint_values_witness:
  "res_P (fst (evalSwitchingConstraint sample_robot \<lparr>is_impulse_active = [False, True]\<rparr>
      (1 / 2) (1 / 4) \<lparr> sol_q = [1, 2], sol_v = [1, 0], sol_a = [0, 2] \<rparr>)) = [3 / 4, 5 / 4]
   \<and> Phiq (fst (linearizeSwitchingConstraint sample_robot \<lparr>is_impulse_active = [False, True]\<rparr>
      (1 / 2) (1 / 4) \<lparr> sol_q = [1, 2], sol_v = [1, 0], sol_a = [0, 2] \<rparr>))
     = [[2, 0], [0, 2]]
   \<and> Phiv (fst (linearizeSwitchingConstraint sample_robot \<lparr>is_impulse_active = [False, True]\<rparr>
      (1 / 2) (1 / 4) \<lparr> sol_q = [1, 2], sol_v = [1, 0], sol_a = [0, 2] \<rparr>))
     = [[9 / 4, 0], [0, 9 / 4]]
   \<and> Phia (fst (linearizeSwitchingConstraint sample_robot \<lparr>is_impulse_active = [False, True]\<rparr>
      (1 / 2) (1 / 4) \<lparr> sol_q = [1, 2], sol_v = [1, 0], sol_a = [0, 2] \<rparr>))
     = [[3 / 8, 0], [0, 3 / 8]]
   \<and> Phiv (fst (linearizeSwitchingConstraint (sample_robot\<lparr>has_floating_base := False\<rparr>)
      \<lparr>is_impulse_active = [False, True]\<rparr>
      (1 / 2) (1 / 4) \<lparr> sol_q = [1, 2], sol_v = [1, 0], sol_a = [0, 2] \<rparr>))
     = [[3 / 4, 0], [0, 3 / 4]]"
proof -
  let ?st = "\<lparr>is_impulse_active = [False, True]\<rparr>"
  let ?s = "\<lparr> sol_q = [1, 2], sol_v = [1, 0], sol_a = [0, 2] \<rparr>"
  let ?fixed = "sample_robot\<lparr>has_floating_base := False\<rparr>"
  have act: "hasActiveImpulse ?st" by (simp add: hasActiveImpulse_def)
  have dt: "(0::real) < 1 / 2" "(0::real) < 1 / 4" by simp_all
  note fl = switching_constraint_values [OF act dt refl refl refl, where s = "?s" and robot = sample_robot]
  note fx = switching_constraint_values [OF act dt refl refl refl, where s = "?s" and robot = "?fixed"]
  have a: "res_P (fst (evalSwitchingConstraint sample_robot ?st (1 / 2) (1 / 4) ?s))
      = [3 / 4, 5 / 4]"
    using fl [THEN conjunct1] by (simp add: vec_add_def scale_def)
  have b: "Phiq (fst (linearizeSwitchingConstraint sample_robot ?st (1 / 2) (1 / 4) ?s))
        = [[2, 0], [0, 2]]
      \<and> Phiv (fst (linearizeSwitchingConstraint sample_robot ?st (1 / 2) (1 / 4) ?s))
        = [[9 / 4, 0], [0, 9 / 4]]
      \<and> Phia (fst (linearizeSwitchingConstraint sample_robot ?st (1 / 2) (1 / 4) ?s))
        = [[3 / 8, 0], [0, 3 / 8]]"
    using fl [THEN conjunct2, THEN conjunct2, THEN conjunct2, THEN conjunct2, THEN conjunct2,
        THEN conjunct1]
    by (simp add: scale_matrix_def scale_def)
  have c: "Phiv (fst (linearizeSwitchingConstraint ?fixed ?st (1 / 2) (1 / 4) ?s))
        = [[3 / 4, 0], [0, 3 / 4]]"
    using fx [THEN conjunct2, THEN conjunct2, THEN conjunct2, THEN conjunct2, THEN conjunct1]
    by (simp add: scale_matrix_def scale_def)
  from a b c show ?thesis by blast
qed

end
